theory Spec2Isabelle
  imports Complex_Main
begin

section \<open>The primitives the class is written over\<close>

text \<open>
  \<^verbatim>\<open>LinearRegression.ts\<close> computes with two kinds of numeric values: \<^verbatim>\<open>Big\<close>, the decimal
  of the library big.js, and the native \<^verbatim>\<open>number\<close>. Neither is code of the repository, and
  neither is the error class the file imports from \<^verbatim>\<open>'../error'\<close>.
\<close>

text \<open>
  Modelled from the spec: the decimal primitive \<^verbatim>\<open>Big\<close>, which the specification takes to
  supply exact add, subtract, multiply, divide, integer power and square root. A decimal is
  a real number; \<^verbatim>\<open>div\<close> fails on a zero divisor and \<^verbatim>\<open>sqrt\<close> on a negative argument, and both
  are exact otherwise. (big.js itself rounds quotients and roots to \<^verbatim>\<open>Big.DP\<close> decimal
  places; that rounding is not part of this model.)
\<close>

type_synonym big = real

text \<open>
  Modelled from the spec: \<^verbatim>\<open>NotEnoughDataError\<close>, the error \<^verbatim>\<open>calculate()\<close> throws on fewer than
  two points. The other constructors are the errors the decimal primitive and the language
  raise: a division by zero, the square root of a negative decimal, a method call on
  \<^verbatim>\<open>undefined\<close>, and a decimal built from \<^verbatim>\<open>undefined\<close> or from a \<^verbatim>\<open>number\<close> that is not
  finite.
\<close>

datatype error = NotEnoughDataError | DivisionByZero | NoSquareRoot | TypeError | InvalidNumber

definition big_div :: "big \<Rightarrow> big \<Rightarrow> error + big" where
  "big_div u v = (if v = 0 then Inl DivisionByZero else Inr (u / v))"

definition big_sqrt :: "big \<Rightarrow> error + big" where
  "big_sqrt u = (if u < 0 then Inl NoSquareRoot else Inr (sqrt u))"

text \<open>
  A native \<^verbatim>\<open>number\<close> is a binary64 floating-point value: a finite value, \<^verbatim>\<open>Infinity\<close>,
  \<^verbatim>\<open>-Infinity\<close> or \<^verbatim>\<open>NaN\<close>. The model keeps the real number a finite \<^verbatim>\<open>number\<close> denotes; the
  sign of zero is not modelled.

  The rounding that produces a \<^verbatim>\<open>number\<close> from an exact value is not fixed: the rounding to
  the precision of the format (as if the exponent range were unbounded) is a parameter
  \<open>rnd\<close> of every function that converts, so that every statement holds for whatever
  rounding the platform performs. The range is fixed: a rounded value of magnitude
  \<open>2 ^ 1024\<close> or more overflows to an infinity.
\<close>

datatype number = Num real | PInf | NInf | NaN

definition overflow_limit :: real where
  "overflow_limit = 2 ^ 1024"

definition native :: "(real \<Rightarrow> real) \<Rightarrow> real \<Rightarrow> number" where
  "native rnd u =
     (if overflow_limit \<le> rnd u then PInf
      else if rnd u \<le> - overflow_limit then NInf
      else Num (rnd u))"

text \<open>\<^verbatim>\<open>toNumber()\<close> converts a decimal: \<^verbatim>\<open>Infinity\<close> or \<^verbatim>\<open>-Infinity\<close> when it is out of range.\<close>

definition toNumber :: "(real \<Rightarrow> real) \<Rightarrow> big \<Rightarrow> number" where
  "toNumber rnd u = native rnd u"

text \<open>
  A \<^verbatim>\<open>number\<close> handed to a decimal operation goes through \<^verbatim>\<open>new Big(...)\<close>: a finite number is
  read back as the value it denotes, and \<^verbatim>\<open>Infinity\<close>, \<^verbatim>\<open>-Infinity\<close> and \<^verbatim>\<open>NaN\<close> are refused
  with the invalid-number error of big.js.
\<close>

fun big_of_number :: "number \<Rightarrow> error + big" where
  "big_of_number (Num u) = Inr u"
| "big_of_number _ = Inl InvalidNumber"

text \<open>
  The native \<^verbatim>\<open>*\<close> and \<^verbatim>\<open>+\<close>. On finite operands they round the exact product and sum,
  overflowing to an infinity. An infinity times a finite value keeps or flips its sign,
  and is \<^verbatim>\<open>NaN\<close> when the finite value is zero; \<^verbatim>\<open>Infinity + -Infinity\<close> is \<^verbatim>\<open>NaN\<close>; \<^verbatim>\<open>NaN\<close>
  propagates.
\<close>

fun negate :: "number \<Rightarrow> number" where
  "negate (Num u) = Num (- u)"
| "negate PInf = NInf"
| "negate NInf = PInf"
| "negate NaN = NaN"

definition scale_infinity :: "number \<Rightarrow> real \<Rightarrow> number" where
  "scale_infinity i v = (if v = 0 then NaN else if 0 < v then i else negate i)"

fun num_times :: "(real \<Rightarrow> real) \<Rightarrow> number \<Rightarrow> number \<Rightarrow> number" where
  "num_times rnd (Num u) (Num v) = native rnd (u * v)"
| "num_times rnd (Num u) PInf = scale_infinity PInf u"
| "num_times rnd (Num u) NInf = scale_infinity NInf u"
| "num_times rnd PInf (Num v) = scale_infinity PInf v"
| "num_times rnd NInf (Num v) = scale_infinity NInf v"
| "num_times rnd PInf PInf = PInf"
| "num_times rnd PInf NInf = NInf"
| "num_times rnd NInf PInf = NInf"
| "num_times rnd NInf NInf = PInf"
| "num_times rnd _ _ = NaN"

fun num_plus :: "(real \<Rightarrow> real) \<Rightarrow> number \<Rightarrow> number \<Rightarrow> number" where
  "num_plus rnd (Num u) (Num v) = native rnd (u + v)"
| "num_plus rnd (Num u) PInf = PInf"
| "num_plus rnd (Num u) NInf = NInf"
| "num_plus rnd PInf (Num v) = PInf"
| "num_plus rnd NInf (Num v) = NInf"
| "num_plus rnd PInf PInf = PInf"
| "num_plus rnd NInf NInf = NInf"
| "num_plus rnd _ _ = NaN"

text \<open>\<^verbatim>\<open>undefined\<close> in an arithmetic position converts to \<^verbatim>\<open>NaN\<close>.\<close>

fun coerce_number :: "number option \<Rightarrow> number" where
  "coerce_number None = NaN"
| "coerce_number (Some v) = v"

text \<open>
  Truthiness, as \<^verbatim>\<open>&&\<close> and \<^verbatim>\<open>!\<close> read it: an object (a \<^verbatim>\<open>Big\<close>) is truthy whenever it is
  defined; a \<^verbatim>\<open>number\<close> is truthy when it is neither zero nor \<^verbatim>\<open>NaN\<close>.
\<close>

definition truthy_big :: "big option \<Rightarrow> bool" where
  "truthy_big v = (v \<noteq> None)"

fun truthy_number :: "number option \<Rightarrow> bool" where
  "truthy_number None = False"
| "truthy_number (Some NaN) = False"
| "truthy_number (Some (Num u)) = (u \<noteq> 0)"
| "truthy_number (Some _) = True"



section \<open>Points\<close>

text \<open>
  The fields \<^verbatim>\<open>x\<close>, \<^verbatim>\<open>y\<close> of the interface \<^verbatim>\<open>Point\<close> and of the class \<^verbatim>\<open>CalculatedPoint\<close>, and
  the fields \<^verbatim>\<open>a\<close>, \<^verbatim>\<open>b\<close> of \<^verbatim>\<open>LinearRegression\<close>, carry a prefix here, so that the letters stay
  free for variables. A coordinate given as a \<^verbatim>\<open>number\<close> enters through \<^verbatim>\<open>new Big(...)\<close>; a
  point is modelled by the decimal values of its coordinates.
\<close>

record point =
  p_x :: big
  p_y :: big

record calculated_point =
  c_x :: big
  c_y :: big
  c_xy :: big
  c_x_squared :: big
  c_y_squared :: big

definition CalculatedPoint :: "point \<Rightarrow> calculated_point" where
  "CalculatedPoint p =
     \<lparr> c_x = p_x p, c_y = p_y p, c_xy = p_x p * p_y p,
       c_x_squared = (p_x p)\<^sup>2, c_y_squared = (p_y p)\<^sup>2 \<rparr>"

section \<open>The class LinearRegression\<close>

text \<open>
  The instance state. \<open>calculate_calls\<close> is a ghost field, not a field of the class: it
  counts the entries into \<^verbatim>\<open>calculate()\<close>, so that a statement can say which calls run a
  calculation. No operation reads it.
\<close>

record linear_regression =
  points :: "calculated_point list"
  lr_a :: "big option"
  lr_b :: "big option"
  residual :: "number option"
  pearsons_r :: "number option"
  sum_x :: big
  sum_y :: big
  sum_xy :: big
  sum_x_squared :: big
  sum_y_squared :: big
  calculate_calls :: nat

definition fresh :: linear_regression where
  "fresh = \<lparr> points = [], lr_a = None, lr_b = None, residual = None, pearsons_r = None,
             sum_x = 0, sum_y = 0, sum_xy = 0, sum_x_squared = 0, sum_y_squared = 0,
             calculate_calls = 0 \<rparr>"

definition clearCalculated :: "linear_regression \<Rightarrow> linear_regression" where
  "clearCalculated st = st\<lparr> lr_a := None, lr_b := None, residual := None, pearsons_r := None \<rparr>"

definition isCalculated :: "linear_regression \<Rightarrow> bool" where
  "isCalculated st \<longleftrightarrow>
     truthy_big (lr_a st) \<and> truthy_big (lr_b st) \<and>
     truthy_number (residual st) \<and> truthy_number (pearsons_r st)"

subsection \<open>push and shift\<close>

text \<open>The argument of \<^verbatim>\<open>push\<close> and of the constructor: one point or an array of points.\<close>

datatype points_arg = One point | Many "point list"

fun as_array :: "points_arg \<Rightarrow> point list" where
  "as_array (One p) = [p]"
| "as_array (Many ps) = ps"

text \<open>The body of the \<^verbatim>\<open>for\<close> loop of \<^verbatim>\<open>push\<close>; the flag is \<^verbatim>\<open>calculated_cleared\<close>.\<close>

fun push_loop :: "linear_regression \<Rightarrow> point list \<Rightarrow> bool \<Rightarrow> linear_regression" where
  "push_loop st [] calculated_cleared = st"
| "push_loop st (p # ps) calculated_cleared =
     (let calc_point = CalculatedPoint p;
          st1 = st\<lparr> points := points st @ [calc_point],
                    sum_x := sum_x st + c_x calc_point,
                    sum_y := sum_y st + c_y calc_point,
                    sum_xy := sum_xy st + c_xy calc_point,
                    sum_x_squared := sum_x_squared st + c_x_squared calc_point,
                    sum_y_squared := sum_y_squared st + c_y_squared calc_point \<rparr>;
          st2 = (if \<not> calculated_cleared then clearCalculated st1 else st1)
      in push_loop st2 ps True)"

definition push :: "linear_regression \<Rightarrow> points_arg \<Rightarrow> linear_regression" where
  "push st arg = push_loop st (as_array arg) False"

definition shift :: "linear_regression \<Rightarrow> linear_regression" where
  "shift st =
     (case points st of
        [] \<Rightarrow> st
      | pt # rest \<Rightarrow>
          clearCalculated
            (st\<lparr> points := rest,
                 sum_x := sum_x st - c_x pt,
                 sum_y := sum_y st - c_y pt,
                 sum_xy := sum_xy st - c_xy pt,
                 sum_x_squared := sum_x_squared st - c_x_squared pt,
                 sum_y_squared := sum_y_squared st - c_y_squared pt \<rparr>))"

text \<open>The constructor: \<^verbatim>\<open>if (points) this.push(points)\<close>; an array, also an empty one, is truthy.\<close>

definition constructor :: "points_arg option \<Rightarrow> linear_regression" where
  "constructor arg = (case arg of None \<Rightarrow> fresh | Some ps \<Rightarrow> push fresh ps)"

definition count :: "linear_regression \<Rightarrow> nat" where
  "count st = length (points st)"

subsection \<open>calculate\<close>

text \<open>
  The \<^verbatim>\<open>number\<close> that \<^verbatim>\<open>this.b.mul(time).plus(this.a).toNumber()\<close> yields, the last line of
  \<^verbatim>\<open>getValue\<close>.
\<close>

definition fitted :: "(real \<Rightarrow> real) \<Rightarrow> big \<Rightarrow> big \<Rightarrow> big \<Rightarrow> number" where
  "fitted rnd av bv time = toNumber rnd (bv * time + av)"

text \<open>
  The \<^verbatim>\<open>for\<close> loop of \<^verbatim>\<open>calculate\<close> over the stored points. The accumulator is
  \<^verbatim>\<open>(sum_residual_squared, sum_r_top, sum_x_minus_mean_x_squared, sum_y_minus_mean_y_squared)\<close>.
  \<^verbatim>\<open>y_hat\<close> is the \<^verbatim>\<open>number\<close> returned by \<^verbatim>\<open>this.getValue(x)\<close>: both coefficients have just been
  assigned, so the guard of \<^verbatim>\<open>getValue\<close> is false there and the call is its last line
  (lemma \<open>getValue_cached\<close> below is this step for the model of \<^verbatim>\<open>getValue\<close>).
  \<^verbatim>\<open>y.minus(y_hat)\<close> hands that number to the decimal primitive, which throws when it is not
  finite; the loop ends there.
\<close>

fun residual_pass ::
  "(real \<Rightarrow> real) \<Rightarrow> big \<Rightarrow> big \<Rightarrow> big \<Rightarrow> big \<Rightarrow> calculated_point list \<Rightarrow>
   big \<times> big \<times> big \<times> big \<Rightarrow> error + big \<times> big \<times> big \<times> big" where
  "residual_pass rnd av bv mean_x mean_y [] acc = Inr acc"
| "residual_pass rnd av bv mean_x mean_y (pt # rest) (srs, rtop, sxx, syy) =
     (let y_hat = fitted rnd av bv (c_x pt)
      in case big_of_number y_hat of
           Inl e \<Rightarrow> Inl e
         | Inr y_hat_big \<Rightarrow>
             residual_pass rnd av bv mean_x mean_y rest
               (srs + (c_y pt - y_hat_big)\<^sup>2,
                rtop + (c_x pt - mean_x) * (c_y pt - mean_y),
                sxx + (c_x pt - mean_x)\<^sup>2,
                syy + (c_y pt - mean_y)\<^sup>2))"

text \<open>
  \<^verbatim>\<open>calculate()\<close> returns the outcome (an exception or normal completion) together with the
  state it leaves: an assignment made before a \<^verbatim>\<open>throw\<close> stays.
\<close>

definition calculate ::
  "(real \<Rightarrow> real) \<Rightarrow> linear_regression \<Rightarrow> (error + unit) \<times> linear_regression" where
  "calculate rnd st0 =
     (let st = st0\<lparr> calculate_calls := calculate_calls st0 + 1 \<rparr>;
          n = real (length (points st))
      in if length (points st) < 2 then (Inl NotEnoughDataError, st)
         else
           let denom = n * sum_x_squared st - (sum_x st)\<^sup>2 in
           case big_div (sum_y st * sum_x_squared st - sum_x st * sum_xy st) denom of
             Inl e \<Rightarrow> (Inl e, st)
           | Inr av \<Rightarrow>
           let st1 = st\<lparr> lr_a := Some av \<rparr> in
           case big_div (n * sum_xy st1 - sum_x st1 * sum_y st1) denom of
             Inl e \<Rightarrow> (Inl e, st1)
           | Inr bv \<Rightarrow>
           let st2 = st1\<lparr> lr_b := Some bv \<rparr> in
           case big_div (sum_x st2) n of
             Inl e \<Rightarrow> (Inl e, st2)
           | Inr mean_x \<Rightarrow>
           case big_div (sum_y st2) n of
             Inl e \<Rightarrow> (Inl e, st2)
           | Inr mean_y \<Rightarrow>
           case residual_pass rnd av bv mean_x mean_y (points st2) (0, 0, 0, 0) of
             Inl e \<Rightarrow> (Inl e, st2)
           | Inr (sum_residual_squared, sum_r_top, sum_x_minus_mean_x_squared,
                  sum_y_minus_mean_y_squared) \<Rightarrow>
           case big_div sum_residual_squared (n - 2) of
             Inl e \<Rightarrow> (Inl e, st2)
           | Inr q \<Rightarrow>
           case big_sqrt q of
             Inl e \<Rightarrow> (Inl e, st2)
           | Inr r \<Rightarrow>
           let st3 = st2\<lparr> residual := Some (toNumber rnd r) \<rparr> in
           case big_sqrt (sum_x_minus_mean_x_squared * sum_y_minus_mean_y_squared) of
             Inl e \<Rightarrow> (Inl e, st3)
           | Inr d \<Rightarrow>
           case big_div sum_r_top d of
             Inl e \<Rightarrow> (Inl e, st3)
           | Inr pr \<Rightarrow> (Inr (), st3\<lparr> pearsons_r := Some (toNumber rnd pr) \<rparr>))"

subsection \<open>Accessors\<close>

text \<open>
  Every accessor returns its outcome and the state it leaves. \<^verbatim>\<open>this.b!.mul(time)\<close> on an
  undefined \<^verbatim>\<open>b\<close> is a \<^verbatim>\<open>TypeError\<close>, \<^verbatim>\<open>.plus(undefined)\<close> an invalid-number error of big.js,
  and \<^verbatim>\<open>undefined * std_dev_val\<close> is \<^verbatim>\<open>NaN\<close>. \<^verbatim>\<open>time\<close> is a decimal and \<^verbatim>\<open>std_dev_val\<close> any
  \<^verbatim>\<open>number\<close>. A default argument (\<^verbatim>\<open>std_dev_val = 1\<close> of
  \<^verbatim>\<open>getResidual\<close> and \<^verbatim>\<open>getStandardDeviation\<close>, \<^verbatim>\<open>std_dev_val = 2\<close> of \<^verbatim>\<open>getValues\<close>) is passed by the
  caller.
\<close>

definition getValue ::
  "(real \<Rightarrow> real) \<Rightarrow> linear_regression \<Rightarrow> big \<Rightarrow> (error + number) \<times> linear_regression" where
  "getValue rnd st time =
     (case (if \<not> (truthy_big (lr_a st) \<and> truthy_big (lr_b st)) then calculate rnd st
            else (Inr (), st)) of
        (Inl e, st1) \<Rightarrow> (Inl e, st1)
      | (Inr _, st1) \<Rightarrow>
          (case lr_b st1 of
             None \<Rightarrow> (Inl TypeError, st1)
           | Some bv \<Rightarrow>
               (case lr_a st1 of
                  None \<Rightarrow> (Inl InvalidNumber, st1)
                | Some av \<Rightarrow> (Inr (fitted rnd av bv time), st1))))"

definition getResidual ::
  "(real \<Rightarrow> real) \<Rightarrow> linear_regression \<Rightarrow> number \<Rightarrow> (error + number) \<times> linear_regression" where
  "getResidual rnd st std_dev_val =
     (case (if \<not> isCalculated st then calculate rnd st else (Inr (), st)) of
        (Inl e, st1) \<Rightarrow> (Inl e, st1)
      | (Inr _, st1) \<Rightarrow>
          (Inr (num_times rnd (coerce_number (residual st1)) std_dev_val), st1))"

definition getStandardDeviation ::
  "(real \<Rightarrow> real) \<Rightarrow> linear_regression \<Rightarrow> number \<Rightarrow> (error + number) \<times> linear_regression" where
  "getStandardDeviation rnd st std_dev_val = getResidual rnd st std_dev_val"

definition getPearsonsR ::
  "(real \<Rightarrow> real) \<Rightarrow> linear_regression \<Rightarrow> (error + number option) \<times> linear_regression" where
  "getPearsonsR rnd st =
     (case (if \<not> isCalculated st then calculate rnd st else (Inr (), st)) of
        (Inl e, st1) \<Rightarrow> (Inl e, st1)
      | (Inr _, st1) \<Rightarrow> (Inr (pearsons_r st1), st1))"

definition getStandardDeviationValue ::
  "(real \<Rightarrow> real) \<Rightarrow> linear_regression \<Rightarrow> big \<Rightarrow> number \<Rightarrow>
   (error + number) \<times> linear_regression" where
  "getStandardDeviationValue rnd st time std_deviation =
     (case getValue rnd st time of
        (Inl e, st1) \<Rightarrow> (Inl e, st1)
      | (Inr v, st1) \<Rightarrow>
          (case getStandardDeviation rnd st1 std_deviation of
             (Inl e, st2) \<Rightarrow> (Inl e, st2)
           | (Inr s, st2) \<Rightarrow> (Inr (num_plus rnd v s), st2)))"

text \<open>
  \<^verbatim>\<open>getValues\<close>: the three elements of the array literal are evaluated from left to right;
  \<^verbatim>\<open>std_dev_val * -1\<close> is a native product.
\<close>

definition getValues ::
  "(real \<Rightarrow> real) \<Rightarrow> linear_regression \<Rightarrow> big \<Rightarrow> number \<Rightarrow>
   (error + number list) \<times> linear_regression" where
  "getValues rnd st time std_dev_val =
     (case getStandardDeviationValue rnd st time (num_times rnd std_dev_val (Num (- 1))) of
        (Inl e, st1) \<Rightarrow> (Inl e, st1)
      | (Inr lo, st1) \<Rightarrow>
          (case getValue rnd st1 time of
             (Inl e, st2) \<Rightarrow> (Inl e, st2)
           | (Inr mid, st2) \<Rightarrow>
               (case getStandardDeviationValue rnd st2 time std_dev_val of
                  (Inl e, st3) \<Rightarrow> (Inl e, st3)
                | (Inr hi, st3) \<Rightarrow> (Inr [lo, mid, hi], st3))))"

subsection \<open>Sequences of calls\<close>

text \<open>
  A caller holds one instance and calls its public methods in any order, catching what
  they throw; the state after a call is the state the call left, whatever its outcome.
\<close>

datatype call =
    Push points_arg
  | Shift
  | Calculate
  | GetValue big
  | GetResidual number
  | GetStandardDeviation number
  | GetPearsonsR
  | GetStandardDeviationValue big number
  | GetValues big number
  | Count

fun exec :: "(real \<Rightarrow> real) \<Rightarrow> linear_regression \<Rightarrow> call \<Rightarrow> linear_regression" where
  "exec rnd st (Push arg) = push st arg"
| "exec rnd st Shift = shift st"
| "exec rnd st Calculate = snd (calculate rnd st)"
| "exec rnd st (GetValue time) = snd (getValue rnd st time)"
| "exec rnd st (GetResidual k) = snd (getResidual rnd st k)"
| "exec rnd st (GetStandardDeviation k) = snd (getStandardDeviation rnd st k)"
| "exec rnd st GetPearsonsR = snd (getPearsonsR rnd st)"
| "exec rnd st (GetStandardDeviationValue time k) = snd (getStandardDeviationValue rnd st time k)"
| "exec rnd st (GetValues time k) = snd (getValues rnd st time k)"
| "exec rnd st Count = st"

definition run :: "(real \<Rightarrow> real) \<Rightarrow> points_arg option \<Rightarrow> call list \<Rightarrow> linear_regression" where
  "run rnd arg calls = foldl (exec rnd) (constructor arg) calls"

section \<open>Invariants\<close>

text \<open>
  A stored point carries the product and the squares of its own coordinates, and the five
  accumulators are the sums of the five fields over the stored points.
\<close>

definition derived_ok :: "calculated_point \<Rightarrow> bool" where
  "derived_ok pt \<longleftrightarrow>
     c_xy pt = c_x pt * c_y pt \<and> c_x_squared pt = (c_x pt)\<^sup>2 \<and> c_y_squared pt = (c_y pt)\<^sup>2"

definition running_sums :: "linear_regression \<Rightarrow> bool" where
  "running_sums st \<longleftrightarrow>
     list_all derived_ok (points st) \<and>
     sum_x st = sum_list (map c_x (points st)) \<and>
     sum_y st = sum_list (map c_y (points st)) \<and>
     sum_xy st = sum_list (map c_xy (points st)) \<and>
     sum_x_squared st = sum_list (map c_x_squared (points st)) \<and>
     sum_y_squared st = sum_list (map c_y_squared (points st))"

text \<open>
  Pushing the points of a list one call at a time, each as a single \<^verbatim>\<open>Point\<close>.
\<close>

fun push_one_by_one :: "linear_regression \<Rightarrow> point list \<Rightarrow> linear_regression" where
  "push_one_by_one st [] = st"
| "push_one_by_one st (p # ps) = push_one_by_one (push st (One p)) ps"

text \<open>All four cached fields are absent.\<close>

definition uncalculated :: "linear_regression \<Rightarrow> bool" where
  "uncalculated st \<longleftrightarrow>
     lr_a st = None \<and> lr_b st = None \<and> residual st = None \<and> pearsons_r st = None"



text \<open>
  The quantities \<^verbatim>\<open>calculate()\<close> computes, as functions of the stored points and the
  accumulators: the shared denominator, the two coefficients, the two means, and the four
  sums of its loop. They name the values in the statements below.
\<close>

definition coef_denom :: "linear_regression \<Rightarrow> real" where
  "coef_denom st = real (length (points st)) * sum_x_squared st - (sum_x st)\<^sup>2"

definition coef_a :: "linear_regression \<Rightarrow> real" where
  "coef_a st = (sum_y st * sum_x_squared st - sum_x st * sum_xy st) / coef_denom st"

definition coef_b :: "linear_regression \<Rightarrow> real" where
  "coef_b st =
     (real (length (points st)) * sum_xy st - sum_x st * sum_y st) / coef_denom st"

definition mean_x_of :: "linear_regression \<Rightarrow> real" where
  "mean_x_of st = sum_x st / real (length (points st))"

definition mean_y_of :: "linear_regression \<Rightarrow> real" where
  "mean_y_of st = sum_y st / real (length (points st))"

text \<open>
  Every fitted value at a stored point is a finite number (so that the loop of
  \<^verbatim>\<open>calculate()\<close> runs to its end), and the sum of squared residuals the loop then holds.
\<close>

fun finite_number :: "number \<Rightarrow> bool" where
  "finite_number (Num u) = True"
| "finite_number _ = False"

definition fitted_finite :: "(real \<Rightarrow> real) \<Rightarrow> linear_regression \<Rightarrow> bool" where
  "fitted_finite rnd st \<longleftrightarrow>
     list_all (\<lambda>p. finite_number (fitted rnd (coef_a st) (coef_b st) (c_x p))) (points st)"

definition residual_squares :: "(real \<Rightarrow> real) \<Rightarrow> linear_regression \<Rightarrow> real" where
  "residual_squares rnd st =
     (\<Sum>p\<leftarrow>points st. (c_y p - rnd (coef_b st * c_x p + coef_a st))\<^sup>2)"

definition r_top :: "linear_regression \<Rightarrow> real" where
  "r_top st = (\<Sum>p\<leftarrow>points st. (c_x p - mean_x_of st) * (c_y p - mean_y_of st))"

definition x_spread :: "linear_regression \<Rightarrow> real" where
  "x_spread st = (\<Sum>p\<leftarrow>points st. (c_x p - mean_x_of st)\<^sup>2)"

definition y_spread :: "linear_regression \<Rightarrow> real" where
  "y_spread st = (\<Sum>p\<leftarrow>points st. (c_y p - mean_y_of st)\<^sup>2)"

definition residual_of :: "(real \<Rightarrow> real) \<Rightarrow> linear_regression \<Rightarrow> number" where
  "residual_of rnd st =
     toNumber rnd (sqrt (residual_squares rnd st / (real (length (points st)) - 2)))"

definition pearson_of :: "(real \<Rightarrow> real) \<Rightarrow> linear_regression \<Rightarrow> number" where
  "pearson_of rnd st = toNumber rnd (r_top st / sqrt (x_spread st * y_spread st))"

text \<open>
  The cached fields of an instance agree with the stored points: a field that is present
  holds the value \<^verbatim>\<open>calculate()\<close> computes from the current points, and the fields are
  assigned in the order \<open>a\<close>, \<open>b\<close>, \<open>residual\<close>, \<open>pearsons_r\<close>.
\<close>

definition cache_ok :: "(real \<Rightarrow> real) \<Rightarrow> linear_regression \<Rightarrow> bool" where
  "cache_ok rnd st \<longleftrightarrow>
     (lr_a st \<noteq> None \<longrightarrow>
        lr_a st = Some (coef_a st) \<and> lr_b st \<noteq> None \<and> 2 \<le> length (points st) \<and>
        coef_denom st \<noteq> 0) \<and>
     (lr_b st \<noteq> None \<longrightarrow> lr_b st = Some (coef_b st) \<and> lr_a st \<noteq> None) \<and>
     (residual st \<noteq> None \<longrightarrow>
        residual st = Some (residual_of rnd st) \<and> lr_b st \<noteq> None \<and> 2 < length (points st) \<and>
        fitted_finite rnd st) \<and>
     (pearsons_r st \<noteq> None \<longrightarrow>
        pearsons_r st = Some (pearson_of rnd st) \<and> residual st \<noteq> None \<and>
        x_spread st * y_spread st \<noteq> 0)"

text \<open>
  Validity of the derived state in the words of the specification: both coefficients and
  both derived statistics are present.
\<close>

definition derived_state_valid :: "linear_regression \<Rightarrow> bool" where
  "derived_state_valid st \<longleftrightarrow>
     lr_a st \<noteq> None \<and> lr_b st \<noteq> None \<and> residual st \<noteq> None \<and> pearsons_r st \<noteq> None"

text \<open>
  Inputs of the worked examples. The examples are run with \<open>rnd = id\<close>, the conversion that
  changes no value in range. In the runs on \<open>two_points\<close>, \<open>level_points\<close> and \<open>line_points\<close>
  every converted value is \<open>0\<close>, \<open>1\<close>, \<open>2\<close> or \<open>5\<close>, which every binary format represents
  exactly. \<open>steep_points\<close> holds the decimal \<open>10 ^ 309\<close>, which is above the range of a
  \<^verbatim>\<open>number\<close>.
\<close>

definition sloped_points :: points_arg where
  "sloped_points = Many [\<lparr>p_x = 0, p_y = 0\<rparr>, \<lparr>p_x = 1, p_y = 0\<rparr>, \<lparr>p_x = 2, p_y = 1\<rparr>]"

definition two_points :: points_arg where
  "two_points = Many [\<lparr>p_x = 0, p_y = 0\<rparr>, \<lparr>p_x = 1, p_y = 1\<rparr>]"

definition level_points :: points_arg where
  "level_points = Many [\<lparr>p_x = 0, p_y = 1\<rparr>, \<lparr>p_x = 1, p_y = 1\<rparr>, \<lparr>p_x = 2, p_y = 1\<rparr>]"

definition line_points :: points_arg where
  "line_points = Many [\<lparr>p_x = 0, p_y = 0\<rparr>, \<lparr>p_x = 1, p_y = 1\<rparr>, \<lparr>p_x = 2, p_y = 2\<rparr>]"

definition four_points :: points_arg where
  "four_points =
     Many [\<lparr>p_x = - 1, p_y = 3\<rparr>, \<lparr>p_x = - 1, p_y = - 5\<rparr>, \<lparr>p_x = 1, p_y = 1\<rparr>,
           \<lparr>p_x = 1, p_y = 1\<rparr>]"


section \<open>Every call preserves what calculate, push and shift preserve\<close>

lemma calculate_frame:
  "points (snd (calculate rnd st)) = points st \<and>
   sum_x (snd (calculate rnd st)) = sum_x st \<and>
   sum_y (snd (calculate rnd st)) = sum_y st \<and>
   sum_xy (snd (calculate rnd st)) = sum_xy st \<and>
   sum_x_squared (snd (calculate rnd st)) = sum_x_squared st \<and>
   sum_y_squared (snd (calculate rnd st)) = sum_y_squared st \<and>
   calculate_calls (snd (calculate rnd st)) = calculate_calls st + 1"
  by (simp add: calculate_def Let_def split: sum.splits prod.splits)

lemma getValue_cases:
  "snd (getValue rnd st t) = st \<or> snd (getValue rnd st t) = snd (calculate rnd st)"
  by (auto simp: getValue_def split: sum.splits prod.splits option.splits)

lemma getResidual_cases:
  "snd (getResidual rnd st k) = st \<or> snd (getResidual rnd st k) = snd (calculate rnd st)"
  by (auto simp: getResidual_def split: sum.splits prod.splits option.splits)

lemma getPearsonsR_cases:
  "snd (getPearsonsR rnd st) = st \<or> snd (getPearsonsR rnd st) = snd (calculate rnd st)"
  by (auto simp: getPearsonsR_def split: sum.splits prod.splits option.splits)

lemma getValue_pres:
  assumes "\<And>s. P s \<Longrightarrow> P (snd (calculate rnd s))" and "P st"
  shows "P (snd (getValue rnd st t))"
  using getValue_cases [of rnd st t] assms by auto

lemma getResidual_pres:
  assumes "\<And>s. P s \<Longrightarrow> P (snd (calculate rnd s))" and "P st"
  shows "P (snd (getResidual rnd st k))"
  using getResidual_cases [of rnd st k] assms by auto

lemma getPearsonsR_pres:
  assumes "\<And>s. P s \<Longrightarrow> P (snd (calculate rnd s))" and "P st"
  shows "P (snd (getPearsonsR rnd st))"
  using getPearsonsR_cases [of rnd st] assms by auto

lemma getStandardDeviationValue_pres:
  assumes c: "\<And>s. P s \<Longrightarrow> P (snd (calculate rnd s))" and "P st"
  shows "P (snd (getStandardDeviationValue rnd st t k))"
proof -
  have 1: "P (snd (getValue rnd st t))"
    using assms by (rule getValue_pres)
  have 2: "P (snd (getResidual rnd (snd (getValue rnd st t)) k))"
    using c 1 by (rule getResidual_pres)
  show ?thesis
    using 1 2
    by (auto simp: getStandardDeviationValue_def getStandardDeviation_def
             split: sum.splits prod.splits)
qed

lemma getValues_pres:
  assumes c: "\<And>s. P s \<Longrightarrow> P (snd (calculate rnd s))" and "P st"
  shows "P (snd (getValues rnd st t k))"
proof -
  let ?s1 = "snd (getStandardDeviationValue rnd st t (num_times rnd k (Num (- 1))))"
  let ?s2 = "snd (getValue rnd ?s1 t)"
  let ?s3 = "snd (getStandardDeviationValue rnd ?s2 t k)"
  have 1: "P ?s1" using assms by (rule getStandardDeviationValue_pres)
  have 2: "P ?s2" using c 1 by (rule getValue_pres)
  have 3: "P ?s3" using c 2 by (rule getStandardDeviationValue_pres)
  show ?thesis
    using 1 2 3
    by (auto simp: getValues_def split: sum.splits prod.splits)
qed

lemma exec_pres:
  assumes "\<And>s arg. P s \<Longrightarrow> P (push s arg)"
    and "\<And>s. P s \<Longrightarrow> P (shift s)"
    and c: "\<And>s. P s \<Longrightarrow> P (snd (calculate rnd s))"
    and "P st"
  shows "P (exec rnd st c0)"
proof (cases c0)
  case (GetValue t) then show ?thesis using getValue_pres [of P rnd st t] assms by simp
next
  case (GetResidual k) then show ?thesis using getResidual_pres [of P rnd st k] assms by simp
next
  case (GetStandardDeviation k)
  then show ?thesis
    using getResidual_pres [of P rnd st k] assms by (simp add: getStandardDeviation_def)
next
  case GetPearsonsR then show ?thesis using getPearsonsR_pres [of P rnd st] assms by simp
next
  case (GetStandardDeviationValue t k)
  then show ?thesis using getStandardDeviationValue_pres [of P rnd st t k] assms by simp
next
  case (GetValues t k) then show ?thesis using getValues_pres [of P rnd st t k] assms by simp
qed (use assms in simp_all)

lemma run_pres:
  assumes f: "P fresh"
    and p: "\<And>s arg. P s \<Longrightarrow> P (push s arg)"
    and s: "\<And>s. P s \<Longrightarrow> P (shift s)"
    and c: "\<And>s. P s \<Longrightarrow> P (snd (calculate rnd s))"
  shows "P (run rnd arg calls)"
proof -
  have 0: "P (constructor arg)"
    using f p by (simp add: constructor_def split: option.splits)
  have "P st \<Longrightarrow> P (foldl (exec rnd) st calls)" for st
  proof (induction calls arbitrary: st)
    case Nil then show ?case by simp
  next
    case (Cons c0 cs)
    have "P (exec rnd st c0)" using p s c Cons.prems by (rule exec_pres)
    then show ?case using Cons.IH by simp
  qed
  then show ?thesis using 0 by (simp add: run_def)
qed


section \<open>The running sums\<close>

lemma running_sums_fresh: "running_sums fresh"
  by (simp add: running_sums_def fresh_def)

lemma running_sums_push_loop:
  "running_sums st \<Longrightarrow> running_sums (push_loop st ps c)"
proof (induction ps arbitrary: st c)
  case Nil
  then show ?case by simp
next
  case (Cons p ps)
  show ?case
    unfolding push_loop.simps Let_def
    by (rule Cons.IH)
      (use Cons.prems in \<open>simp add: running_sums_def clearCalculated_def CalculatedPoint_def
        derived_ok_def\<close>)
qed

lemma running_sums_push: "running_sums st \<Longrightarrow> running_sums (push st arg)"
  by (simp add: push_def running_sums_push_loop)

lemma running_sums_shift: "running_sums st \<Longrightarrow> running_sums (shift st)"
  by (cases "points st") (simp_all add: shift_def running_sums_def clearCalculated_def)

lemma running_sums_calculate: "running_sums st \<Longrightarrow> running_sums (snd (calculate rnd st))"
  by (simp add: running_sums_def calculate_frame)

lemma running_sums_run: "running_sums (run rnd arg calls)"
  by (rule run_pres) (simp_all add: running_sums_fresh running_sums_push running_sums_shift
    running_sums_calculate)

lemma derived_sums:
  assumes "list_all derived_ok pts"
  shows "sum_list (map c_xy pts) = (\<Sum>p\<leftarrow>pts. c_x p * c_y p)"
    and "sum_list (map c_x_squared pts) = (\<Sum>p\<leftarrow>pts. (c_x p)\<^sup>2)"
    and "sum_list (map c_y_squared pts) = (\<Sum>p\<leftarrow>pts. (c_y p)\<^sup>2)"
  using assms by (induction pts) (simp_all add: derived_ok_def)

text \<open>
  C1. After any sequence of calls on an instance built by the constructor (pushes and
  shifts, and also calculations and accessor calls, in any order), each of the five
  accumulators \<open>sum_x\<close>, \<open>sum_y\<close>, \<open>sum_xy\<close>, \<open>sum_x_squared\<close>, \<open>sum_y_squared\<close> equals the
  sum of \<open>x\<close>, \<open>y\<close>, \<open>x * y\<close>, \<open>x\<^sup>2\<close>, \<open>y\<^sup>2\<close> over the points currently stored.
\<close>

theorem accumulators_equal_sums:
  fixes rnd arg calls
  defines "st \<equiv> run rnd arg calls"
  shows "sum_x st = (\<Sum>p\<leftarrow>points st. c_x p) \<and>
         sum_y st = (\<Sum>p\<leftarrow>points st. c_y p) \<and>
         sum_xy st = (\<Sum>p\<leftarrow>points st. c_x p * c_y p) \<and>
         sum_x_squared st = (\<Sum>p\<leftarrow>points st. (c_x p)\<^sup>2) \<and>
         sum_y_squared st = (\<Sum>p\<leftarrow>points st. (c_y p)\<^sup>2)"
  using running_sums_run [of rnd arg calls] derived_sums [of "points st"]
  by (simp add: running_sums_def st_def)


section \<open>What calculate computes\<close>

lemma native_finite:
  "finite_number (native rnd u) \<Longrightarrow> native rnd u = Num (rnd u)"
  by (simp add: native_def split: if_splits)

lemma native_not_NaN: "native rnd u \<noteq> NaN"
  by (simp add: native_def)

lemma truthy_toNumber:
  "truthy_number (Some (toNumber rnd u)) \<longleftrightarrow> toNumber rnd u \<noteq> Num 0"
  by (simp add: toNumber_def native_def)

lemmas native_unfold = toNumber_def native_def overflow_limit_def

lemma fitted_finite_value:
  "finite_number (fitted rnd av bv t) \<Longrightarrow> fitted rnd av bv t = Num (rnd (bv * t + av))"
  by (simp add: fitted_def toNumber_def native_finite)

lemma residual_pass_finite:
  "list_all (\<lambda>p. finite_number (fitted rnd av bv (c_x p))) pts \<Longrightarrow>
   residual_pass rnd av bv mx my pts (s1, s2, s3, s4) =
     Inr (s1 + (\<Sum>p\<leftarrow>pts. (c_y p - rnd (bv * c_x p + av))\<^sup>2),
          s2 + (\<Sum>p\<leftarrow>pts. (c_x p - mx) * (c_y p - my)),
          s3 + (\<Sum>p\<leftarrow>pts. (c_x p - mx)\<^sup>2),
          s4 + (\<Sum>p\<leftarrow>pts. (c_y p - my)\<^sup>2))"
  by (induction pts arbitrary: s1 s2 s3 s4)
    (simp_all add: Let_def fitted_finite_value add.assoc)

lemma residual_pass_overflow:
  "\<not> list_all (\<lambda>p. finite_number (fitted rnd av bv (c_x p))) pts \<Longrightarrow>
   residual_pass rnd av bv mx my pts (s1, s2, s3, s4) = Inl InvalidNumber"
proof (induction pts arbitrary: s1 s2 s3 s4)
  case Nil
  then show ?case by simp
next
  case (Cons p pts)
  show ?case
  proof (cases "fitted rnd av bv (c_x p)")
    case (Num u)
    then have "\<not> list_all (\<lambda>p. finite_number (fitted rnd av bv (c_x p))) pts"
      using Cons.prems by simp
    then show ?thesis
      using Num by (simp add: Cons.IH)
  qed simp_all
qed

lemma sum_squares_nonneg: "0 \<le> (\<Sum>p\<leftarrow>pts. (f p :: real)\<^sup>2)"
  by (induction pts) simp_all

lemma residual_squares_nonneg: "0 \<le> residual_squares rnd st"
  unfolding residual_squares_def by (rule sum_squares_nonneg)

lemma x_spread_nonneg: "0 \<le> x_spread st"
  unfolding x_spread_def by (rule sum_squares_nonneg)

lemma y_spread_nonneg: "0 \<le> y_spread st"
  unfolding y_spread_def by (rule sum_squares_nonneg)

lemma calculate_few:
  "length (points st) < 2 \<Longrightarrow>
   calculate rnd st = (Inl NotEnoughDataError, st\<lparr>calculate_calls := calculate_calls st + 1\<rparr>)"
  by (simp add: calculate_def)

lemma calculate_denom_zero:
  "2 \<le> length (points st) \<Longrightarrow> coef_denom st = 0 \<Longrightarrow>
   calculate rnd st = (Inl DivisionByZero, st\<lparr>calculate_calls := calculate_calls st + 1\<rparr>)"
  by (simp add: calculate_def coef_denom_def big_div_def)

text \<open>
  Past the guard and the coefficient solve, \<^verbatim>\<open>calculate()\<close> is the loop and what follows it,
  on the state that holds the two coefficients.
\<close>

lemma calculate_solved:
  assumes "2 \<le> length (points st)" and "coef_denom st \<noteq> 0"
  shows "calculate rnd st =
     (let st2 = st\<lparr>lr_a := Some (coef_a st), lr_b := Some (coef_b st),
                   calculate_calls := calculate_calls st + 1\<rparr>
      in case residual_pass rnd (coef_a st) (coef_b st) (mean_x_of st) (mean_y_of st)
                (points st) (0, 0, 0, 0) of
           Inl e \<Rightarrow> (Inl e, st2)
         | Inr (srs, rtop, sxx, syy) \<Rightarrow>
             (case big_div srs (real (length (points st)) - 2) of
                Inl e \<Rightarrow> (Inl e, st2)
              | Inr q \<Rightarrow>
                  (case big_sqrt q of
                     Inl e \<Rightarrow> (Inl e, st2)
                   | Inr r \<Rightarrow>
                       (case big_sqrt (sxx * syy) of
                          Inl e \<Rightarrow> (Inl e, st2\<lparr>residual := Some (toNumber rnd r)\<rparr>)
                        | Inr d \<Rightarrow>
                            (case big_div rtop d of
                               Inl e \<Rightarrow> (Inl e, st2\<lparr>residual := Some (toNumber rnd r)\<rparr>)
                             | Inr pr \<Rightarrow>
                                 (Inr (),
                                  st2\<lparr>residual := Some (toNumber rnd r),
                                      pearsons_r := Some (toNumber rnd pr)\<rparr>))))))"
proof -
  have ne: "points st \<noteq> []"
    using assms(1) by auto
  show ?thesis
    using assms ne
    by (simp add: calculate_def Let_def big_div_def coef_denom_def coef_a_def coef_b_def
        mean_x_of_def mean_y_of_def split: sum.splits prod.splits)
qed

lemma pass_finite:
  assumes "fitted_finite rnd st"
  shows "residual_pass rnd (coef_a st) (coef_b st) (mean_x_of st) (mean_y_of st) (points st)
           (0, 0, 0, 0) =
         Inr (residual_squares rnd st, r_top st, x_spread st, y_spread st)"
  using assms
  by (simp add: fitted_finite_def residual_pass_finite residual_squares_def r_top_def
      x_spread_def y_spread_def)

lemma pass_overflow:
  assumes "\<not> fitted_finite rnd st"
  shows "residual_pass rnd (coef_a st) (coef_b st) (mean_x_of st) (mean_y_of st) (points st)
           (0, 0, 0, 0) = Inl InvalidNumber"
  using assms by (simp add: fitted_finite_def residual_pass_overflow)

lemma calculate_overflow:
  assumes "2 \<le> length (points st)" and "coef_denom st \<noteq> 0" and "\<not> fitted_finite rnd st"
  shows "calculate rnd st =
     (Inl InvalidNumber,
      st\<lparr>lr_a := Some (coef_a st), lr_b := Some (coef_b st),
         calculate_calls := calculate_calls st + 1\<rparr>)"
  by (simp add: calculate_solved [OF assms(1,2)] pass_overflow [OF assms(3)])

lemma calculate_two:
  assumes "length (points st) = 2" and "coef_denom st \<noteq> 0" and "fitted_finite rnd st"
  shows "calculate rnd st =
     (Inl DivisionByZero,
      st\<lparr>lr_a := Some (coef_a st), lr_b := Some (coef_b st),
         calculate_calls := calculate_calls st + 1\<rparr>)"
proof -
  have "2 \<le> length (points st)"
    using assms(1) by simp
  then show ?thesis
    using assms(1)
    by (simp add: calculate_solved [OF _ assms(2)] pass_finite [OF assms(3)] big_div_def)
qed

lemma calculate_pearson_zero:
  assumes "2 < length (points st)" and "coef_denom st \<noteq> 0" and "fitted_finite rnd st"
    and "x_spread st * y_spread st = 0"
  shows "calculate rnd st =
     (Inl DivisionByZero,
      st\<lparr>lr_a := Some (coef_a st), lr_b := Some (coef_b st),
         residual := Some (residual_of rnd st),
         calculate_calls := calculate_calls st + 1\<rparr>)"
proof -
  have n: "2 \<le> length (points st)"
    using assms(1) by simp
  have "0 \<le> residual_squares rnd st / (real (length (points st)) - 2)"
    using assms(1) residual_squares_nonneg [of rnd st] by simp
  then have q: "big_sqrt (residual_squares rnd st / (real (length (points st)) - 2)) =
      Inr (sqrt (residual_squares rnd st / (real (length (points st)) - 2)))"
    by (simp add: big_sqrt_def)
  have d: "big_sqrt (x_spread st * y_spread st) = Inr 0"
    unfolding big_sqrt_def assms(4) by simp
  show ?thesis
    using assms(1)
    by (simp add: calculate_solved [OF n assms(2)] pass_finite [OF assms(3)] big_div_def
        q d residual_of_def)
qed

lemma calculate_ok:
  assumes "2 < length (points st)" and "coef_denom st \<noteq> 0" and "fitted_finite rnd st"
    and "x_spread st * y_spread st \<noteq> 0"
  shows "calculate rnd st =
     (Inr (),
      st\<lparr>lr_a := Some (coef_a st), lr_b := Some (coef_b st),
         residual := Some (residual_of rnd st), pearsons_r := Some (pearson_of rnd st),
         calculate_calls := calculate_calls st + 1\<rparr>)"
proof -
  have n: "2 \<le> length (points st)"
    using assms(1) by simp
  have "0 \<le> residual_squares rnd st / (real (length (points st)) - 2)"
    using assms(1) residual_squares_nonneg [of rnd st] by simp
  then have q: "big_sqrt (residual_squares rnd st / (real (length (points st)) - 2)) =
      Inr (sqrt (residual_squares rnd st / (real (length (points st)) - 2)))"
    by (simp add: big_sqrt_def)
  have "0 \<le> x_spread st * y_spread st"
    using x_spread_nonneg [of st] y_spread_nonneg [of st] by simp
  then have d: "big_sqrt (x_spread st * y_spread st) = Inr (sqrt (x_spread st * y_spread st))"
    by (simp add: big_sqrt_def)
  have d0: "sqrt (x_spread st * y_spread st) \<noteq> 0"
    using assms(4) by simp
  show ?thesis
    using assms(1) d0
    by (simp add: calculate_solved [OF n assms(2)] pass_finite [OF assms(3)] big_div_def
        q d residual_of_def pearson_of_def)
qed

lemma calculate_cases [consumes 0, case_names few denom_zero overflow two pearson_zero ok]:
  assumes "length (points st) < 2 \<Longrightarrow> P"
    and "2 \<le> length (points st) \<Longrightarrow> coef_denom st = 0 \<Longrightarrow> P"
    and "2 \<le> length (points st) \<Longrightarrow> coef_denom st \<noteq> 0 \<Longrightarrow> \<not> fitted_finite rnd st \<Longrightarrow> P"
    and "length (points st) = 2 \<Longrightarrow> coef_denom st \<noteq> 0 \<Longrightarrow> fitted_finite rnd st \<Longrightarrow> P"
    and "2 < length (points st) \<Longrightarrow> coef_denom st \<noteq> 0 \<Longrightarrow> fitted_finite rnd st \<Longrightarrow>
         x_spread st * y_spread st = 0 \<Longrightarrow> P"
    and "2 < length (points st) \<Longrightarrow> coef_denom st \<noteq> 0 \<Longrightarrow> fitted_finite rnd st \<Longrightarrow>
         x_spread st * y_spread st \<noteq> 0 \<Longrightarrow> P"
  shows P
  using assms
  by (cases "length (points st) < 2"; cases "length (points st) = 2";
      cases "fitted_finite rnd st") auto

lemmas calc_results =
  calculate_few calculate_denom_zero calculate_overflow calculate_two calculate_pearson_zero
  calculate_ok

lemmas data_unfold =
  coef_denom_def coef_a_def coef_b_def mean_x_of_def mean_y_of_def fitted_finite_def
  residual_squares_def x_spread_def y_spread_def r_top_def residual_of_def pearson_of_def

lemma push_loop_nil_or_cleared:
  "push_loop st ps c =
     (if ps = [] then st
      else (push_loop st ps c)\<lparr>lr_a := if c then lr_a st else None,
             lr_b := if c then lr_b st else None,
             residual := if c then residual st else None,
             pearsons_r := if c then pearsons_r st else None\<rparr>)"
proof (induction ps arbitrary: st c)
  case Nil
  then show ?case by simp
next
  case (Cons p ps)
  show ?case
    apply (subst (1 2) push_loop.simps)
    apply (subst (1 2) Cons.IH)
    apply (simp add: Let_def clearCalculated_def)
    done
qed

lemma cache_ok_fresh: "cache_ok rnd fresh"
  by (simp add: cache_ok_def fresh_def)

lemma cache_ok_push: "cache_ok rnd st \<Longrightarrow> cache_ok rnd (push st arg)"
  unfolding push_def
  by (subst push_loop_nil_or_cleared) (simp add: cache_ok_def)

lemma cache_ok_shift: "cache_ok rnd st \<Longrightarrow> cache_ok rnd (shift st)"
  by (cases "points st") (auto simp: shift_def cache_ok_def clearCalculated_def)

lemma cache_ok_calculate:
  assumes "cache_ok rnd st"
  shows "cache_ok rnd (snd (calculate rnd st))"
proof (cases rule: calculate_cases [where st = st and rnd = rnd])
  case few
  then show ?thesis
    using assms by (auto simp: calculate_few cache_ok_def data_unfold)
next
  case denom_zero
  then show ?thesis
    using assms by (auto simp: calculate_denom_zero cache_ok_def data_unfold)
next
  case overflow
  then show ?thesis
    using assms by (auto simp: calculate_overflow cache_ok_def data_unfold)
next
  case two
  then show ?thesis
    using assms by (auto simp: calculate_two cache_ok_def data_unfold)
next
  case pearson_zero
  then show ?thesis
    using assms by (auto simp: calculate_pearson_zero cache_ok_def data_unfold)
next
  case ok
  then show ?thesis
    using assms by (auto simp: calculate_ok cache_ok_def data_unfold)
qed

lemma cache_ok_run: "cache_ok rnd (run rnd arg calls)"
  by (rule run_pres) (simp_all add: cache_ok_fresh cache_ok_push cache_ok_shift
    cache_ok_calculate)


lemma calculate_sets_coefficients:
  assumes "2 \<le> length (points st)" and "coef_denom st \<noteq> 0"
  shows "lr_a (snd (calculate rnd st)) = Some (coef_a st)"
    and "lr_b (snd (calculate rnd st)) = Some (coef_b st)"
  using assms
  by (cases rule: calculate_cases [where st = st and rnd = rnd];
      simp add: calc_results)+

lemma run_nil: "run rnd arg [] = constructor arg"
  by (simp add: run_def)

lemmas build_unfold =
  constructor_def push_def Let_def CalculatedPoint_def fresh_def clearCalculated_def

lemmas eval_unfold =
  run_def build_unfold calculate_def big_div_def big_sqrt_def toNumber_def fitted_def
  native_def overflow_limit_def
  getValue_def getResidual_def getPearsonsR_def getStandardDeviation_def
  getStandardDeviationValue_def getValues_def isCalculated_def truthy_big_def

text \<open>
  C2. On an instance reached by any sequence of calls, with \<open>n \<ge> 2\<close> stored points and
  \<open>denom = n * \<Sigma>x\<^sup>2 - (\<Sigma>x)\<^sup>2\<close> nonzero, \<^verbatim>\<open>calculate()\<close> leaves
  \<open>a = (\<Sigma>y * \<Sigma>x\<^sup>2 - \<Sigma>x * \<Sigma>xy) / denom\<close> and \<open>b = (n * \<Sigma>xy - \<Sigma>x * \<Sigma>y) / denom\<close>, the sums
  taken over the stored points and both quotients over the one \<open>denom\<close>; this holds
  whether or not a later step of the same call throws.
\<close>

theorem calculate_coefficients:
  fixes rnd arg calls
  defines "st \<equiv> run rnd arg calls"
  defines "n \<equiv> real (length (points st))"
  defines "Sx \<equiv> (\<Sum>p\<leftarrow>points st. c_x p)"
  defines "Sy \<equiv> (\<Sum>p\<leftarrow>points st. c_y p)"
  defines "Sxy \<equiv> (\<Sum>p\<leftarrow>points st. c_x p * c_y p)"
  defines "Sxx \<equiv> (\<Sum>p\<leftarrow>points st. (c_x p)\<^sup>2)"
  defines "denom \<equiv> n * Sxx - Sx\<^sup>2"
  assumes "2 \<le> length (points st)" and "denom \<noteq> 0"
  shows "lr_a (snd (calculate rnd st)) = Some ((Sy * Sxx - Sx * Sxy) / denom) \<and>
         lr_b (snd (calculate rnd st)) = Some ((n * Sxy - Sx * Sy) / denom)"
proof -
  have rs: "running_sums st"
    unfolding st_def by (rule running_sums_run)
  have sums: "sum_x st = Sx" "sum_y st = Sy" "sum_xy st = Sxy" "sum_x_squared st = Sxx"
    using rs derived_sums [of "points st"]
    by (simp_all add: running_sums_def Sx_def Sy_def Sxy_def Sxx_def)
  have d: "coef_denom st = denom"
    by (simp add: coef_denom_def denom_def n_def sums)
  have "coef_a st = (Sy * Sxx - Sx * Sxy) / denom"
    and "coef_b st = (n * Sxy - Sx * Sy) / denom"
    by (simp_all add: coef_a_def coef_b_def d sums n_def)
  then show ?thesis
    using calculate_sets_coefficients [of st rnd] assms(8,9) d by simp
qed

text \<open>The points \<open>(0, 0)\<close>, \<open>(1, 0)\<close>, \<open>(2, 1)\<close>: \<open>denom = 6\<close>, \<open>a = - 1 / 6\<close>, \<open>b = 1 / 2\<close>.\<close>

theorem calculate_coefficients_witness:
  "2 \<le> length (points (run id (Some (Many [\<lparr>p_x = 0, p_y = 0\<rparr>, \<lparr>p_x = 1, p_y = 0\<rparr>,
      \<lparr>p_x = 2, p_y = 1\<rparr>])) [])) \<and>
   lr_a (snd (calculate id (run id (Some (Many [\<lparr>p_x = 0, p_y = 0\<rparr>, \<lparr>p_x = 1, p_y = 0\<rparr>,
      \<lparr>p_x = 2, p_y = 1\<rparr>])) []))) = Some (- 1 / 6) \<and>
   lr_b (snd (calculate id (run id (Some (Many [\<lparr>p_x = 0, p_y = 0\<rparr>, \<lparr>p_x = 1, p_y = 0\<rparr>,
      \<lparr>p_x = 2, p_y = 1\<rparr>])) []))) = Some (1 / 2)"
  using calculate_coefficients [of id "Some (Many [\<lparr>p_x = 0, p_y = 0\<rparr>, \<lparr>p_x = 1, p_y = 0\<rparr>,
      \<lparr>p_x = 2, p_y = 1\<rparr>])" "[]"]
  by (simp add: run_nil build_unfold)


section \<open>Too few points\<close>

lemma calculate_not_enough_iff:
  "fst (calculate rnd st) = Inl NotEnoughDataError \<longleftrightarrow> length (points st) < 2"
  by (cases rule: calculate_cases [where st = st and rnd = rnd])
    (simp_all add: calc_results)

lemma few_points_uncalculated:
  assumes "cache_ok rnd st" and "length (points st) < 2"
  shows "lr_a st = None" and "lr_b st = None" and "residual st = None"
    and "pearsons_r st = None"
  using assms by (auto simp: cache_ok_def)

lemma getValue_few:
  "length (points st) < 2 \<Longrightarrow> lr_a st = None \<Longrightarrow>
   getValue rnd st t = (Inl NotEnoughDataError, snd (calculate rnd st))"
  by (simp add: getValue_def truthy_big_def calculate_few)

lemma getResidual_few:
  "length (points st) < 2 \<Longrightarrow> lr_a st = None \<Longrightarrow>
   getResidual rnd st k = (Inl NotEnoughDataError, snd (calculate rnd st))"
  by (simp add: getResidual_def isCalculated_def truthy_big_def calculate_few)

lemma getPearsonsR_few:
  "length (points st) < 2 \<Longrightarrow> lr_a st = None \<Longrightarrow>
   getPearsonsR rnd st = (Inl NotEnoughDataError, snd (calculate rnd st))"
  by (simp add: getPearsonsR_def isCalculated_def truthy_big_def calculate_few)

lemma getStandardDeviationValue_few:
  "length (points st) < 2 \<Longrightarrow> lr_a st = None \<Longrightarrow>
   getStandardDeviationValue rnd st t k = (Inl NotEnoughDataError, snd (calculate rnd st))"
  by (simp add: getStandardDeviationValue_def getValue_few)

lemma getValues_few:
  "length (points st) < 2 \<Longrightarrow> lr_a st = None \<Longrightarrow>
   getValues rnd st t k = (Inl NotEnoughDataError, snd (calculate rnd st))"
  by (simp add: getValues_def getStandardDeviationValue_few)

text \<open>
  C4. \<^verbatim>\<open>calculate()\<close> throws \<^verbatim>\<open>NotEnoughDataError\<close> exactly when fewer than two points are
  stored (on any state \<open>s\<close>). On an instance reached by any sequence of calls that stores
  fewer than two points, the derived state is absent and every accessor throws
  \<^verbatim>\<open>NotEnoughDataError\<close> through the calculation it triggers.
\<close>

theorem not_enough_data:
  fixes rnd arg calls
  defines "st \<equiv> run rnd arg calls"
  shows "(fst (calculate rnd s) = Inl NotEnoughDataError \<longleftrightarrow> length (points s) < 2) \<and>
         (length (points st) < 2 \<longrightarrow>
            fst (getValue rnd st t) = Inl NotEnoughDataError \<and>
            fst (getResidual rnd st k) = Inl NotEnoughDataError \<and>
            fst (getStandardDeviation rnd st k) = Inl NotEnoughDataError \<and>
            fst (getPearsonsR rnd st) = Inl NotEnoughDataError \<and>
            fst (getStandardDeviationValue rnd st t k) = Inl NotEnoughDataError \<and>
            fst (getValues rnd st t k) = Inl NotEnoughDataError)"
proof -
  have "cache_ok rnd st"
    unfolding st_def by (rule cache_ok_run)
  then have "lr_a st = None" if "length (points st) < 2"
    using that by (rule few_points_uncalculated)
  then show ?thesis
    by (simp add: calculate_not_enough_iff getValue_few getResidual_few getPearsonsR_few
        getStandardDeviationValue_few getValues_few getStandardDeviation_def)
qed

text \<open>The instance of the repository's test: the single point \<open>(17, 94)\<close>.\<close>

theorem not_enough_data_witness:
  "length (points (run id (Some (One \<lparr>p_x = 17, p_y = 94\<rparr>)) [])) < 2 \<and>
   fst (calculate id (run id (Some (One \<lparr>p_x = 17, p_y = 94\<rparr>)) [])) = Inl NotEnoughDataError \<and>
   fst (getValue id (run id (Some (One \<lparr>p_x = 17, p_y = 94\<rparr>)) []) 17) =
     Inl NotEnoughDataError \<and>
   fst (getResidual id (run id (Some (One \<lparr>p_x = 17, p_y = 94\<rparr>)) []) (Num 1)) =
     Inl NotEnoughDataError \<and>
   fst (getStandardDeviation id (run id (Some (One \<lparr>p_x = 17, p_y = 94\<rparr>)) []) (Num 1)) =
     Inl NotEnoughDataError \<and>
   fst (getPearsonsR id (run id (Some (One \<lparr>p_x = 17, p_y = 94\<rparr>)) [])) =
     Inl NotEnoughDataError \<and>
   fst (getStandardDeviationValue id (run id (Some (One \<lparr>p_x = 17, p_y = 94\<rparr>)) []) 17 (Num 1)) =
     Inl NotEnoughDataError \<and>
   fst (getValues id (run id (Some (One \<lparr>p_x = 17, p_y = 94\<rparr>)) []) 17 (Num 2)) =
     Inl NotEnoughDataError"
proof -
  have few: "length (points (run id (Some (One \<lparr>p_x = 17, p_y = 94\<rparr>)) [])) < 2"
    by (simp add: run_nil build_unfold)
  show ?thesis
    using few
      not_enough_data [where rnd = id and arg = "Some (One \<lparr>p_x = 17, p_y = 94\<rparr>)"
        and calls = "[]" and s = "run id (Some (One \<lparr>p_x = 17, p_y = 94\<rparr>)) []"
        and t = 17 and k = "Num 1"]
      not_enough_data [where rnd = id and arg = "Some (One \<lparr>p_x = 17, p_y = 94\<rparr>)"
        and calls = "[]" and s = "run id (Some (One \<lparr>p_x = 17, p_y = 94\<rparr>)) []"
        and t = 17 and k = "Num 2"]
    by simp
qed



section \<open>Worked examples\<close>

lemmas example_unfold = two_points_def level_points_def four_points_def

lemma two_points_calculated:
  "calculate id (run id (Some two_points) []) =
     (Inl DivisionByZero,
      \<lparr>points = map CalculatedPoint [\<lparr>p_x = 0, p_y = 0\<rparr>, \<lparr>p_x = 1, p_y = 1\<rparr>],
       lr_a = Some 0, lr_b = Some 1, residual = None, pearsons_r = None,
       sum_x = 1, sum_y = 1, sum_xy = 1, sum_x_squared = 1, sum_y_squared = 1,
       calculate_calls = 1\<rparr>)"
  by (simp add: eval_unfold example_unfold)

lemma level_points_calculated:
  "calculate id (run id (Some level_points) []) =
     (Inl DivisionByZero,
      \<lparr>points = map CalculatedPoint
         [\<lparr>p_x = 0, p_y = 1\<rparr>, \<lparr>p_x = 1, p_y = 1\<rparr>, \<lparr>p_x = 2, p_y = 1\<rparr>],
       lr_a = Some 1, lr_b = Some 0, residual = Some (Num 0), pearsons_r = None,
       sum_x = 3, sum_y = 3, sum_xy = 3, sum_x_squared = 5, sum_y_squared = 3,
       calculate_calls = 1\<rparr>)"
  by (simp add: eval_unfold example_unfold)

lemma four_points_calculated:
  "calculate id (run id (Some four_points) []) =
     (Inr (),
      \<lparr>points = map CalculatedPoint
         [\<lparr>p_x = - 1, p_y = 3\<rparr>, \<lparr>p_x = - 1, p_y = - 5\<rparr>, \<lparr>p_x = 1, p_y = 1\<rparr>,
          \<lparr>p_x = 1, p_y = 1\<rparr>],
       lr_a = Some 0, lr_b = Some 1, residual = Some (Num 4), pearsons_r = Some (Num (1 / 3)),
       sum_x = 0, sum_y = 0, sum_xy = 4, sum_x_squared = 4, sum_y_squared = 36,
       calculate_calls = 1\<rparr>)"
proof -
  have "sqrt 16 = 4" "sqrt 144 = 12"
    by (rule real_sqrt_unique; simp)+
  then show ?thesis
    by (simp add: eval_unfold example_unfold)
qed


lemma run_Calculate: "run rnd arg [Calculate] = snd (calculate rnd (run rnd arg []))"
  by (simp add: run_def)

section \<open>When an accessor calculates\<close>

lemma getValue_cached:
  "lr_a st = Some av \<Longrightarrow> lr_b st = Some bv \<Longrightarrow>
   getValue rnd st t = (Inr (fitted rnd av bv t), st)"
  by (simp add: getValue_def truthy_big_def)

lemma getValue_uncached:
  "lr_a st = None \<or> lr_b st = None \<Longrightarrow> snd (getValue rnd st t) = snd (calculate rnd st)"
  by (auto simp: getValue_def truthy_big_def split: prod.splits sum.splits option.splits)

lemma getResidual_cached:
  "isCalculated st \<Longrightarrow>
   getResidual rnd st k = (Inr (num_times rnd (coerce_number (residual st)) k), st)"
  by (simp add: getResidual_def)

lemma getResidual_uncached:
  "\<not> isCalculated st \<Longrightarrow> snd (getResidual rnd st k) = snd (calculate rnd st)"
  by (auto simp: getResidual_def split: prod.splits sum.splits)

lemma getPearsonsR_cached:
  "isCalculated st \<Longrightarrow> getPearsonsR rnd st = (Inr (pearsons_r st), st)"
  by (simp add: getPearsonsR_def)

lemma getPearsonsR_uncached:
  "\<not> isCalculated st \<Longrightarrow> snd (getPearsonsR rnd st) = snd (calculate rnd st)"
  by (auto simp: getPearsonsR_def split: prod.splits sum.splits)

lemma isCalculated_coefficients:
  assumes "isCalculated st"
  obtains av bv where "lr_a st = Some av" and "lr_b st = Some bv"
  using assms by (auto simp: isCalculated_def truthy_big_def)

lemma getStandardDeviationValue_cached:
  assumes "isCalculated st"
  shows "snd (getStandardDeviationValue rnd st t k) = st"
proof -
  obtain av bv where "lr_a st = Some av" and "lr_b st = Some bv"
    using assms by (rule isCalculated_coefficients)
  then show ?thesis
    using assms
    by (simp add: getStandardDeviationValue_def getStandardDeviation_def getValue_cached
        getResidual_cached)
qed

lemma getStandardDeviationValue_cached_ok:
  assumes "isCalculated st"
  shows "\<exists>v. getStandardDeviationValue rnd st t k = (Inr v, st)"
proof -
  obtain av bv where "lr_a st = Some av" and "lr_b st = Some bv"
    using assms by (rule isCalculated_coefficients)
  then show ?thesis
    using assms
    by (simp add: getStandardDeviationValue_def getStandardDeviation_def getValue_cached
        getResidual_cached)
qed

lemma getValues_unfold:
  "nk = num_times rnd k (Num (- 1)) \<Longrightarrow>
   getValues rnd st t k =
     (case getStandardDeviationValue rnd st t nk of
        (Inl e, st1) \<Rightarrow> (Inl e, st1)
      | (Inr lo, st1) \<Rightarrow>
          (case getValue rnd st1 t of
             (Inl e, st2) \<Rightarrow> (Inl e, st2)
           | (Inr mid, st2) \<Rightarrow>
               (case getStandardDeviationValue rnd st2 t k of
                  (Inl e, st3) \<Rightarrow> (Inl e, st3)
                | (Inr hi, st3) \<Rightarrow> (Inr [lo, mid, hi], st3))))"
  by (simp add: getValues_def)

lemma getValues_cached:
  assumes "isCalculated st"
  shows "snd (getValues rnd st t k) = st"
proof -
  define nk where "nk = num_times rnd k (Num (- 1))"
  obtain av bv where ab: "lr_a st = Some av" "lr_b st = Some bv"
    using assms by (rule isCalculated_coefficients)
  obtain lo where lo: "getStandardDeviationValue rnd st t nk = (Inr lo, st)"
    using getStandardDeviationValue_cached_ok [OF assms] by blast
  obtain hi where hi: "getStandardDeviationValue rnd st t k = (Inr hi, st)"
    using getStandardDeviationValue_cached_ok [OF assms] by blast
  show ?thesis
    by (simp add: getValues_unfold [where rnd = rnd and k = k, OF nk_def] lo hi getValue_cached [OF ab])
qed

lemma getValue_calls_mono:
  "calculate_calls st \<le> calculate_calls (snd (getValue rnd st t))"
  using getValue_cases [of rnd st t] by (auto simp: calculate_frame)

lemma getResidual_calls_mono:
  "calculate_calls st \<le> calculate_calls (snd (getResidual rnd st k))"
  using getResidual_cases [of rnd st k] by (auto simp: calculate_frame)

lemma getStandardDeviationValue_state:
  "snd (getStandardDeviationValue rnd st t k) =
     (case getValue rnd st t of
        (Inl e, s1) \<Rightarrow> s1
      | (Inr v, s1) \<Rightarrow> snd (getResidual rnd s1 k))"
  by (simp add: getStandardDeviationValue_def getStandardDeviation_def
      split: prod.splits sum.splits)

lemma getStandardDeviationValue_calls_mono:
  "calculate_calls st \<le> calculate_calls (snd (getStandardDeviationValue rnd st t k))"
  by (rule getStandardDeviationValue_pres [where P = "\<lambda>s. calculate_calls st \<le> calculate_calls s"])
    (simp_all add: calculate_frame)

lemma invalid_not_calculated: "\<not> derived_state_valid st \<Longrightarrow> \<not> isCalculated st"
  by (cases "residual st"; cases "pearsons_r st")
    (auto simp: derived_state_valid_def isCalculated_def truthy_big_def)

lemma getStandardDeviationValue_triggers:
  assumes "\<not> derived_state_valid st"
  shows "calculate_calls st < calculate_calls (snd (getStandardDeviationValue rnd st t k))"
proof (cases "lr_a st = None \<or> lr_b st = None")
  case True
  then have s1: "calculate_calls (snd (getValue rnd st t)) = calculate_calls st + 1"
    by (simp add: getValue_uncached calculate_frame)
  obtain r1 s1 where g: "getValue rnd st t = (r1, s1)"
    by (cases "getValue rnd st t")
  have "calculate_calls s1 = calculate_calls st + 1"
    using s1 g by simp
  moreover have "calculate_calls s1 \<le> calculate_calls (snd (getResidual rnd s1 k))"
    by (rule getResidual_calls_mono)
  ultimately show ?thesis
    by (cases r1) (simp_all add: getStandardDeviationValue_state g)
next
  case False
  then obtain av bv where ab: "lr_a st = Some av" "lr_b st = Some bv"
    by auto
  have "calculate_calls (snd (getResidual rnd st k)) = calculate_calls st + 1"
    using assms by (simp add: getResidual_uncached invalid_not_calculated calculate_frame)
  then show ?thesis
    by (simp add: getStandardDeviationValue_state getValue_cached [OF ab])
qed

lemma getValues_state:
  "nk = num_times rnd k (Num (- 1)) \<Longrightarrow>
   snd (getValues rnd st t k) =
     (case getStandardDeviationValue rnd st t nk of
        (Inl e, s1) \<Rightarrow> s1
      | (Inr lo, s1) \<Rightarrow>
          (case getValue rnd s1 t of
             (Inl e, s2) \<Rightarrow> s2
           | (Inr mid, s2) \<Rightarrow> snd (getStandardDeviationValue rnd s2 t k)))"
  by (simp add: getValues_def split: prod.splits sum.splits)

lemma getValues_triggers:
  assumes "\<not> derived_state_valid st"
  shows "calculate_calls st < calculate_calls (snd (getValues rnd st t k))"
proof -
  define nk where "nk = num_times rnd k (Num (- 1))"
  obtain r1 s1 where g1: "getStandardDeviationValue rnd st t nk = (r1, s1)"
    by (cases "getStandardDeviationValue rnd st t nk")
  obtain r2 s2 where g2: "getValue rnd s1 t = (r2, s2)"
    by (cases "getValue rnd s1 t")
  have 1: "calculate_calls st < calculate_calls s1"
    using getStandardDeviationValue_triggers [OF assms, of rnd t nk] g1 by simp
  have 2: "calculate_calls s1 \<le> calculate_calls s2"
    using getValue_calls_mono [of s1 rnd t] g2 by simp
  have 3: "calculate_calls s2 \<le> calculate_calls (snd (getStandardDeviationValue rnd s2 t k))"
    by (rule getStandardDeviationValue_calls_mono)
  show ?thesis
    using 1 2 3 by (cases r1; cases r2) (simp_all add: getValues_state [where rnd = rnd and k = k, OF nk_def] g1 g2)
qed

lemma calculate_success_calculated:
  assumes "fst (calculate rnd st) = Inr ()"
    and "residual (snd (calculate rnd st)) \<noteq> Some (Num 0)"
    and "pearsons_r (snd (calculate rnd st)) \<noteq> Some (Num 0)"
  shows "isCalculated (snd (calculate rnd st))"
  using assms
  by (cases rule: calculate_cases [where st = st and rnd = rnd])
    (simp_all add: calc_results isCalculated_def truthy_big_def residual_of_def pearson_of_def
      truthy_toNumber)

text \<open>
  C3, as the code has it. \<^verbatim>\<open>getValue\<close> enters \<^verbatim>\<open>calculate()\<close> exactly when a coefficient is
  absent (the ghost counter grows by one then, and not otherwise). When the derived state is
  not valid in the words of the specification (a coefficient or a derived statistic is
  absent), \<^verbatim>\<open>getResidual\<close>, \<^verbatim>\<open>getStandardDeviation\<close> and \<^verbatim>\<open>getPearsonsR\<close> enter \<^verbatim>\<open>calculate()\<close>
  exactly once, and \<^verbatim>\<open>getStandardDeviationValue\<close> and \<^verbatim>\<open>getValues\<close> at least once. When
  \<^verbatim>\<open>isCalculated()\<close> holds (all four present, both statistics nonzero), none of the six
  accessors calculates: each leaves the state as it is and reads the cached fields. A
  successful \<^verbatim>\<open>calculate()\<close> whose two statistics are nonzero leaves \<^verbatim>\<open>isCalculated()\<close> true.
\<close>

theorem accessors_trigger_calculate:
  "calculate_calls (snd (getValue rnd st t)) =
     calculate_calls st + (if lr_a st = None \<or> lr_b st = None then 1 else 0) \<and>
   (\<not> derived_state_valid st \<longrightarrow>
      calculate_calls (snd (getResidual rnd st k)) = calculate_calls st + 1 \<and>
      calculate_calls (snd (getStandardDeviation rnd st k)) = calculate_calls st + 1 \<and>
      calculate_calls (snd (getPearsonsR rnd st)) = calculate_calls st + 1 \<and>
      calculate_calls st < calculate_calls (snd (getStandardDeviationValue rnd st t k)) \<and>
      calculate_calls st < calculate_calls (snd (getValues rnd st t k))) \<and>
   (isCalculated st \<longrightarrow>
      snd (getValue rnd st t) = st \<and>
      getResidual rnd st k =
        (Inr (num_times rnd (coerce_number (residual st)) k), st) \<and>
      getStandardDeviation rnd st k =
        (Inr (num_times rnd (coerce_number (residual st)) k), st) \<and>
      getPearsonsR rnd st = (Inr (pearsons_r st), st) \<and>
      snd (getStandardDeviationValue rnd st t k) = st \<and>
      snd (getValues rnd st t k) = st) \<and>
   (fst (calculate rnd st) = Inr () \<and>
    residual (snd (calculate rnd st)) \<noteq> Some (Num 0) \<and>
    pearsons_r (snd (calculate rnd st)) \<noteq> Some (Num 0) \<longrightarrow>
      isCalculated (snd (calculate rnd st)))"
proof -
  have A: "calculate_calls (snd (getValue rnd st t)) =
     calculate_calls st + (if lr_a st = None \<or> lr_b st = None then 1 else 0)"
  proof (cases "lr_a st = None \<or> lr_b st = None")
    case True
    then show ?thesis by (simp add: getValue_uncached calculate_frame)
  next
    case False
    then obtain av bv where "lr_a st = Some av" "lr_b st = Some bv" by auto
    then show ?thesis by (simp add: getValue_cached)
  qed
  have B: "calculate_calls (snd (getResidual rnd st k)) = calculate_calls st + 1"
    "calculate_calls (snd (getStandardDeviation rnd st k)) = calculate_calls st + 1"
    "calculate_calls (snd (getPearsonsR rnd st)) = calculate_calls st + 1"
    if "\<not> derived_state_valid st"
    using invalid_not_calculated [OF that]
    by (simp_all add: getResidual_uncached getPearsonsR_uncached getStandardDeviation_def
        calculate_frame)
  have C: "snd (getValue rnd st t) = st" if ic: "isCalculated st"
  proof -
    obtain av bv where "lr_a st = Some av" and "lr_b st = Some bv"
      using ic by (rule isCalculated_coefficients)
    then show ?thesis by (simp add: getValue_cached)
  qed
  show ?thesis
    using A B C
    by (simp add: getStandardDeviationValue_triggers getValues_triggers getResidual_cached
        getPearsonsR_cached getStandardDeviation_def getStandardDeviationValue_cached
        getValues_cached calculate_success_calculated)
qed


text \<open>
  The claim as stated fails for \<^verbatim>\<open>getValue\<close>. After \<^verbatim>\<open>calculate()\<close> has thrown on the two points
  \<open>(0, 0)\<close>, \<open>(1, 1)\<close>, the derived state is not valid (the residual is absent), and
  \<^verbatim>\<open>getValue(5)\<close> returns \<open>5\<close> and leaves the state, the counter included, as it is.
\<close>

theorem getValue_skips_calculate_counterexample:
  "\<not> derived_state_valid (run id (Some two_points) [Calculate]) \<and>
   getValue id (run id (Some two_points) [Calculate]) 5 =
     (Inr (Num 5), run id (Some two_points) [Calculate])"
  by (simp add: run_Calculate two_points_calculated derived_state_valid_def getValue_cached
      fitted_def native_unfold)

text \<open>
  The theorem at a freshly constructed empty instance (nothing present) and at the four
  points \<open>(-1, 3)\<close>, \<open>(-1, -5)\<close>, \<open>(1, 1)\<close>, \<open>(1, 1)\<close> after one calculation (\<open>a = 0\<close>, \<open>b = 1\<close>,
  residual \<open>4\<close>, Pearson's R \<open>1 / 3\<close>).
\<close>

theorem accessors_trigger_calculate_witness:
  "\<not> derived_state_valid (run id None []) \<and>
   calculate_calls (snd (getResidual id (run id None []) (Num 1))) =
     calculate_calls (run id None []) + 1 \<and>
   calculate_calls (run id None []) < calculate_calls (snd (getValues id (run id None []) 0 (Num 2))) \<and>
   isCalculated (run id (Some four_points) [Calculate]) \<and>
   getResidual id (run id (Some four_points) [Calculate]) (Num 2) =
     (Inr (Num 8), run id (Some four_points) [Calculate]) \<and>
   getPearsonsR id (run id (Some four_points) [Calculate]) =
     (Inr (Some (Num (1 / 3))), run id (Some four_points) [Calculate]) \<and>
   snd (getValues id (run id (Some four_points) [Calculate]) 0 (Num 2)) =
     run id (Some four_points) [Calculate] \<and>
   fst (calculate id (run id (Some four_points) [])) = Inr () \<and>
   isCalculated (snd (calculate id (run id (Some four_points) [])))"
proof -
  have 1: "\<not> derived_state_valid (run id None [])"
    by (simp add: run_nil constructor_def fresh_def derived_state_valid_def)
  have 2: "isCalculated (run id (Some four_points) [Calculate])"
    by (simp add: run_Calculate four_points_calculated isCalculated_def truthy_big_def)
  have 3: "fst (calculate id (run id (Some four_points) [])) = Inr () \<and>
    residual (snd (calculate id (run id (Some four_points) []))) \<noteq> Some (Num 0) \<and>
    pearsons_r (snd (calculate id (run id (Some four_points) []))) \<noteq> Some (Num 0)"
    by (simp add: four_points_calculated)
  have 4: "residual (run id (Some four_points) [Calculate]) = Some (Num 4)"
    "pearsons_r (run id (Some four_points) [Calculate]) = Some (Num (1 / 3))"
    by (simp_all add: run_Calculate four_points_calculated)
  show ?thesis
    using 1 2 3
      accessors_trigger_calculate [of id "run id None []" 0 "Num 1"]
      accessors_trigger_calculate [of id "run id None []" 0 "Num 2"]
      accessors_trigger_calculate [of id "run id (Some four_points) [Calculate]" 0 "Num 2"]
      accessors_trigger_calculate [of id "run id (Some four_points) []" 0 "Num 2"]
    by (simp add: 4 native_unfold)
qed

text \<open>
  Beside C3: a derived statistic that is present and zero is falsy in \<^verbatim>\<open>isCalculated()\<close>. On
  the points \<open>(0, 0)\<close>, \<open>(1, 1)\<close>, \<open>(2, 2)\<close> the calculation succeeds with residual \<open>0\<close>; all
  four fields are present, and \<^verbatim>\<open>getResidual\<close> calculates again. The statement of C3 above
  says nothing about this case.
\<close>

lemma line_points_calculated:
  "calculate id (run id (Some line_points) []) =
     (Inr (),
      \<lparr>points = map CalculatedPoint
         [\<lparr>p_x = 0, p_y = 0\<rparr>, \<lparr>p_x = 1, p_y = 1\<rparr>, \<lparr>p_x = 2, p_y = 2\<rparr>],
       lr_a = Some 0, lr_b = Some 1, residual = Some (Num 0), pearsons_r = Some (Num 1),
       sum_x = 3, sum_y = 3, sum_xy = 5, sum_x_squared = 5, sum_y_squared = 5,
       calculate_calls = 1\<rparr>)"
  by (simp add: eval_unfold line_points_def)

lemma zero_residual_recalculates:
  "derived_state_valid (run id (Some line_points) [Calculate]) \<and>
   calculate_calls (run id (Some line_points) [Calculate]) = 1 \<and>
   calculate_calls (snd (getResidual id (run id (Some line_points) [Calculate]) (Num 1))) = 2"
proof -
  have "\<not> isCalculated (run id (Some line_points) [Calculate])"
    by (simp add: run_Calculate line_points_calculated isCalculated_def)
  then have "snd (getResidual id (run id (Some line_points) [Calculate]) (Num 1)) =
    snd (calculate id (run id (Some line_points) [Calculate]))"
    by (rule getResidual_uncached)
  then show ?thesis
    by (simp add: calculate_frame run_Calculate line_points_calculated derived_state_valid_def)
qed

section \<open>Presence of the cached fields\<close>

lemma push_clears:
  assumes "as_array ps \<noteq> []"
  shows "lr_a (push st ps) = None" and "lr_b (push st ps) = None"
    and "residual (push st ps) = None" and "pearsons_r (push st ps) = None"
  unfolding push_def
  by (subst push_loop_nil_or_cleared; simp add: assms)+

lemma shift_clears:
  assumes "points st \<noteq> []"
  shows "lr_a (shift st) = None" and "lr_b (shift st) = None"
    and "residual (shift st) = None" and "pearsons_r (shift st) = None"
  using assms by (cases "points st"; simp add: shift_def clearCalculated_def)+

lemma calculate_success_all_present:
  assumes "fst (calculate rnd st) = Inr ()"
  shows "lr_a (snd (calculate rnd st)) \<noteq> None" and "lr_b (snd (calculate rnd st)) \<noteq> None"
    and "residual (snd (calculate rnd st)) \<noteq> None"
    and "pearsons_r (snd (calculate rnd st)) \<noteq> None"
  using assms
  by (cases rule: calculate_cases [where st = st and rnd = rnd];
      simp add: calc_results)+

text \<open>
  C6, as the code has it. In every state reached by calls from the constructor, a derived
  statistic is present only if both coefficients are, \<open>pearsons_r\<close> only if \<open>residual\<close> is,
  and \<open>a\<close> exactly when \<open>b\<close> is. A successful \<^verbatim>\<open>calculate()\<close> leaves all four present; a
  \<^verbatim>\<open>push\<close> of at least one point and a \<^verbatim>\<open>shift\<close> of a non-empty instance leave all four absent.
\<close>

theorem statistics_only_with_coefficients:
  fixes rnd arg calls
  defines "st \<equiv> run rnd arg calls"
  shows "(residual st \<noteq> None \<or> pearsons_r st \<noteq> None \<longrightarrow> lr_a st \<noteq> None \<and> lr_b st \<noteq> None) \<and>
         (pearsons_r st \<noteq> None \<longrightarrow> residual st \<noteq> None) \<and>
         (lr_a st \<noteq> None \<longleftrightarrow> lr_b st \<noteq> None) \<and>
         (fst (calculate rnd st) = Inr () \<longrightarrow>
            lr_a (snd (calculate rnd st)) \<noteq> None \<and> lr_b (snd (calculate rnd st)) \<noteq> None \<and>
            residual (snd (calculate rnd st)) \<noteq> None \<and>
            pearsons_r (snd (calculate rnd st)) \<noteq> None) \<and>
         (as_array ps \<noteq> [] \<longrightarrow>
            lr_a (push st ps) = None \<and> lr_b (push st ps) = None \<and>
            residual (push st ps) = None \<and> pearsons_r (push st ps) = None) \<and>
         (points st \<noteq> [] \<longrightarrow>
            lr_a (shift st) = None \<and> lr_b (shift st) = None \<and>
            residual (shift st) = None \<and> pearsons_r (shift st) = None)"
proof -
  have c: "cache_ok rnd st"
    unfolding st_def by (rule cache_ok_run)
  have 1: "residual st \<noteq> None \<or> pearsons_r st \<noteq> None \<longrightarrow> lr_a st \<noteq> None \<and> lr_b st \<noteq> None"
    using c unfolding cache_ok_def by blast
  have 2: "pearsons_r st \<noteq> None \<longrightarrow> residual st \<noteq> None"
    using c unfolding cache_ok_def by blast
  have 3: "lr_a st \<noteq> None \<longleftrightarrow> lr_b st \<noteq> None"
    using c unfolding cache_ok_def by blast
  show ?thesis
    using 1 2 3
    by (simp add: calculate_success_all_present push_clears shift_clears)
qed

text \<open>
  The claim as stated fails in the converse direction: after \<^verbatim>\<open>calculate()\<close> has thrown on the
  two points \<open>(0, 0)\<close>, \<open>(1, 1)\<close>, both coefficients are present and both statistics absent.
\<close>

theorem coefficients_without_statistics_counterexample:
  "lr_a (run id (Some two_points) [Calculate]) = Some 0 \<and>
   lr_b (run id (Some two_points) [Calculate]) = Some 1 \<and>
   residual (run id (Some two_points) [Calculate]) = None \<and>
   pearsons_r (run id (Some two_points) [Calculate]) = None"
  by (simp add: run_Calculate two_points_calculated)

text \<open>The theorem at the four points after one calculation.\<close>

theorem statistics_only_with_coefficients_witness:
  "residual (run id (Some four_points) [Calculate]) \<noteq> None \<and>
   pearsons_r (run id (Some four_points) [Calculate]) \<noteq> None \<and>
   lr_a (run id (Some four_points) [Calculate]) \<noteq> None \<and>
   lr_b (run id (Some four_points) [Calculate]) \<noteq> None \<and>
   fst (calculate id (run id (Some four_points) [Calculate])) = Inr () \<and>
   pearsons_r (snd (calculate id (run id (Some four_points) [Calculate]))) \<noteq> None \<and>
   as_array (One \<lparr>p_x = 2, p_y = 2\<rparr>) \<noteq> [] \<and>
   lr_a (push (run id (Some four_points) [Calculate]) (One \<lparr>p_x = 2, p_y = 2\<rparr>)) = None \<and>
   pearsons_r (push (run id (Some four_points) [Calculate]) (One \<lparr>p_x = 2, p_y = 2\<rparr>)) = None \<and>
   points (run id (Some four_points) [Calculate]) \<noteq> [] \<and>
   lr_b (shift (run id (Some four_points) [Calculate])) = None \<and>
   residual (shift (run id (Some four_points) [Calculate])) = None"
proof -
  have 1: "residual (run id (Some four_points) [Calculate]) \<noteq> None"
    "pearsons_r (run id (Some four_points) [Calculate]) \<noteq> None"
    "points (run id (Some four_points) [Calculate]) \<noteq> []"
    by (simp_all add: run_Calculate four_points_calculated)
  have e: "run id (Some four_points) [Calculate] =
     \<lparr>points = map CalculatedPoint
         [\<lparr>p_x = - 1, p_y = 3\<rparr>, \<lparr>p_x = - 1, p_y = - 5\<rparr>, \<lparr>p_x = 1, p_y = 1\<rparr>,
          \<lparr>p_x = 1, p_y = 1\<rparr>],
       lr_a = Some 0, lr_b = Some 1, residual = Some (Num 4), pearsons_r = Some (Num (1 / 3)),
       sum_x = 0, sum_y = 0, sum_xy = 4, sum_x_squared = 4, sum_y_squared = 36,
       calculate_calls = 1\<rparr>"
    by (simp add: run_Calculate four_points_calculated)
  have "sqrt 16 = 4" "sqrt 144 = 12"
    by (rule real_sqrt_unique; simp)+
  then have 2: "fst (calculate id (run id (Some four_points) [Calculate])) = Inr ()"
    unfolding e
    by (simp add: calculate_def Let_def big_div_def big_sqrt_def CalculatedPoint_def
        fitted_def native_unfold)
  show ?thesis
    using 1 2
      statistics_only_with_coefficients [of id "Some four_points" "[Calculate]"
        "One \<lparr>p_x = 2, p_y = 2\<rparr>"]
    by simp
qed



section \<open>A calculation that throws after the coefficients are solved\<close>

text \<open>
  C10, as the code has it. On an instance reached by any sequence of calls, when
  \<^verbatim>\<open>calculate()\<close> throws a division by zero although the shared denominator is nonzero, the
  failed call leaves \<open>a\<close> and \<open>b\<close> assigned (to the values of the two closed forms) and
  \<open>pearsons_r\<close> unset. \<open>residual\<close> is unset when exactly two points are stored (the throw is
  the division by \<open>n - 2\<close>) and assigned otherwise (the throw is the division by the Pearson
  denominator, after line 192 has assigned the residual). A following \<^verbatim>\<open>getValue(x)\<close> returns
  the number for \<open>b * x + a\<close> and leaves the state, the counter of calculations included,
  as it is.
\<close>

theorem failed_calculate_keeps_coefficients:
  fixes rnd arg calls x
  defines "st \<equiv> run rnd arg calls"
  defines "st' \<equiv> snd (calculate rnd st)"
  defines "n \<equiv> real (length (points st))"
  defines "denom \<equiv> n * sum_x_squared st - (sum_x st)\<^sup>2"
  defines "av \<equiv> (sum_y st * sum_x_squared st - sum_x st * sum_xy st) / denom"
  defines "bv \<equiv> (n * sum_xy st - sum_x st * sum_y st) / denom"
  assumes "fst (calculate rnd st) = Inl DivisionByZero" and "denom \<noteq> 0"
  shows "lr_a st' = Some av \<and> lr_b st' = Some bv \<and> pearsons_r st' = None \<and>
         (length (points st) = 2 \<longrightarrow> residual st' = None) \<and>
         (length (points st) \<noteq> 2 \<longrightarrow> residual st' \<noteq> None) \<and>
         getValue rnd st' x = (Inr (toNumber rnd (bv * x + av)), st')"
proof -
  have c: "cache_ok rnd st"
    unfolding st_def by (rule cache_ok_run)
  have d: "coef_denom st = denom" "coef_a st = av" "coef_b st = bv"
    by (simp_all add: coef_denom_def coef_a_def coef_b_def denom_def av_def bv_def n_def)
  have ab: "lr_a st' = Some av \<and> lr_b st' = Some bv \<and> pearsons_r st' = None \<and>
         (length (points st) = 2 \<longrightarrow> residual st' = None) \<and>
         (length (points st) \<noteq> 2 \<longrightarrow> residual st' \<noteq> None)"
  proof (cases rule: calculate_cases [where st = st and rnd = rnd])
    case few
    then show ?thesis using assms(7) by (simp add: calculate_few)
  next
    case denom_zero
    then show ?thesis using assms(8) d by simp
  next
    case overflow
    then show ?thesis using assms(7) by (simp add: calculate_overflow)
  next
    case two
    moreover have "residual st = None" "pearsons_r st = None"
      using c two(1) unfolding cache_ok_def by auto
    ultimately show ?thesis
      by (simp add: st'_def calculate_two d)
  next
    case pearson_zero
    moreover have "pearsons_r st = None"
      using c pearson_zero(4) unfolding cache_ok_def by auto
    ultimately show ?thesis
      by (simp add: st'_def calculate_pearson_zero d)
  next
    case ok
    then show ?thesis using assms(7) by (simp add: calculate_ok)
  qed
  then have "getValue rnd st' x = (Inr (fitted rnd av bv x), st')"
    by (simp add: getValue_cached)
  then show ?thesis
    using ab by (simp add: fitted_def)
qed

text \<open>The theorem at the two points \<open>(0, 0)\<close>, \<open>(1, 1)\<close>: \<open>a = 0\<close>, \<open>b = 1\<close>, \<^verbatim>\<open>getValue(5) = 5\<close>.\<close>

theorem failed_calculate_keeps_coefficients_witness:
  "fst (calculate id (run id (Some two_points) [])) = Inl DivisionByZero \<and>
   lr_a (snd (calculate id (run id (Some two_points) []))) = Some 0 \<and>
   lr_b (snd (calculate id (run id (Some two_points) []))) = Some 1 \<and>
   residual (snd (calculate id (run id (Some two_points) []))) = None \<and>
   pearsons_r (snd (calculate id (run id (Some two_points) []))) = None \<and>
   getValue id (snd (calculate id (run id (Some two_points) []))) 5 =
     (Inr (Num 5), snd (calculate id (run id (Some two_points) [])))"
proof -
  have s: "sum_x (run id (Some two_points) []) = 1" "sum_y (run id (Some two_points) []) = 1"
    "sum_xy (run id (Some two_points) []) = 1" "sum_x_squared (run id (Some two_points) []) = 1"
    "length (points (run id (Some two_points) [])) = 2"
    by (simp_all add: run_nil build_unfold two_points_def)
  have f: "fst (calculate id (run id (Some two_points) [])) = Inl DivisionByZero"
    by (simp add: two_points_calculated)
  show ?thesis
    using f failed_calculate_keeps_coefficients [of id "Some two_points" "[]" 5]
    by (simp add: s native_unfold)
qed

text \<open>
  The claim as stated fails where the throw is the Pearson division. On the three points
  \<open>(0, 1)\<close>, \<open>(1, 1)\<close>, \<open>(2, 1)\<close> the coefficients are solved (\<open>a = 1\<close>, \<open>b = 0\<close>), the residual
  is assigned (\<open>0\<close>), and the division by the Pearson denominator \<open>sqrt (2 * 0)\<close> throws.
\<close>

theorem residual_assigned_before_pearson_fails_counterexample:
  "fst (calculate id (run id (Some level_points) [])) = Inl DivisionByZero \<and>
   lr_a (snd (calculate id (run id (Some level_points) []))) = Some 1 \<and>
   lr_b (snd (calculate id (run id (Some level_points) []))) = Some 0 \<and>
   residual (snd (calculate id (run id (Some level_points) []))) = Some (Num 0)"
  by (simp add: level_points_calculated)


section \<open>Batch and incremental construction\<close>

lemma clearCalculated_uncalculated: "uncalculated st \<Longrightarrow> clearCalculated st = st"
  by (cases st) (simp add: uncalculated_def clearCalculated_def)

lemma cleared_again:
  "uncalculated st \<Longrightarrow>
   st\<lparr>lr_a := None, lr_b := None, residual := None, pearsons_r := None\<rparr> = st"
  using clearCalculated_uncalculated [of st] by (simp add: clearCalculated_def)

lemma push_loop_flag:
  "uncalculated st \<Longrightarrow> push_loop st ps c = push_loop st ps True"
  by (cases ps) (simp_all add: Let_def clearCalculated_def cleared_again uncalculated_def)

lemma uncalculated_push_loop:
  "uncalculated st \<Longrightarrow> uncalculated (push_loop st ps c)"
  by (subst push_loop_nil_or_cleared) (simp add: uncalculated_def)

lemma push_one_by_one_batch:
  "uncalculated st \<Longrightarrow> push_one_by_one st ps = push st (Many ps)"
proof (induction ps arbitrary: st)
  case Nil
  then show ?case by (simp add: push_def)
next
  case (Cons p ps)
  have u: "uncalculated (push st (One p))"
    unfolding push_def using Cons.prems by (rule uncalculated_push_loop)
  have "push_one_by_one st (p # ps) = push (push st (One p)) (Many ps)"
    using Cons.IH [OF u] by simp
  also have "\<dots> = push_loop (push_loop st [p] False) ps True"
    using push_loop_flag [OF u, of ps False] by (simp add: push_def)
  also have "\<dots> = push st (Many (p # ps))"
    by (simp add: push_def Let_def)
  finally show ?case .
qed

text \<open>
  C7. For every point sequence \<open>P\<close>, the instance constructed with all of \<open>P\<close> and the
  instance constructed empty and then given the points of \<open>P\<close> by one \<^verbatim>\<open>push\<close> each are the same
  state; so \<^verbatim>\<open>calculate()\<close> has the same outcome on both and leaves the same coefficients
  \<open>a\<close> and \<open>b\<close>, the same residual and the same Pearson's R.
\<close>

theorem incremental_equals_batch:
  fixes rnd P
  defines "batch \<equiv> constructor (Some (Many P))"
  defines "incremental \<equiv> push_one_by_one (constructor None) P"
  shows "batch = incremental \<and>
         fst (calculate rnd batch) = fst (calculate rnd incremental) \<and>
         lr_a (snd (calculate rnd batch)) = lr_a (snd (calculate rnd incremental)) \<and>
         lr_b (snd (calculate rnd batch)) = lr_b (snd (calculate rnd incremental)) \<and>
         residual (snd (calculate rnd batch)) = residual (snd (calculate rnd incremental)) \<and>
         pearsons_r (snd (calculate rnd batch)) = pearsons_r (snd (calculate rnd incremental))"
proof -
  have "uncalculated fresh"
    by (simp add: uncalculated_def fresh_def)
  then have "batch = incremental"
    by (simp add: batch_def incremental_def constructor_def push_one_by_one_batch)
  then show ?thesis by simp
qed

section \<open>Native numbers inside the residual pass\<close>

text \<open>
  C8 does not hold of the code. The residual pass obtains the fitted value \<^verbatim>\<open>y_hat\<close> from
  \<^verbatim>\<open>getValue\<close>, which returns \<^verbatim>\<open>b.mul(x).plus(a).toNumber()\<close>: a native number, which
  \<^verbatim>\<open>y.minus(y_hat)\<close> feeds back into the decimal sum of squared residuals. On the points
  \<open>(0, 0)\<close>, \<open>(1, 0)\<close>, \<open>(2, 1)\<close> (\<open>a = - 1 / 6\<close>, \<open>b = 1 / 2\<close>) the cached residual is, for every
  conversion \<open>rnd\<close>, computed from the converted fitted values \<open>rnd (- 1 / 6)\<close>, \<open>rnd (1 / 3)\<close>
  and \<open>rnd (5 / 6)\<close>, none of which a binary format represents exactly; the Pearson sums of
  the same loop stay decimal. (A conversion under which one of the three is not finite
  makes the decimal subtraction throw, and no residual is assigned.)
\<close>

theorem residual_pass_converts_fitted_values:
  "residual (snd (calculate rnd (constructor (Some sloped_points)))) =
     (if fitted_finite rnd (constructor (Some sloped_points))
      then Some (toNumber rnd
        (sqrt ((0 - rnd (- 1 / 6))\<^sup>2 + (0 - rnd (1 / 3))\<^sup>2 + (1 - rnd (5 / 6))\<^sup>2)))
      else None)"
proof -
  let ?st = "constructor (Some sloped_points)"
  have s: "points ?st = map CalculatedPoint [\<lparr>p_x = 0, p_y = 0\<rparr>, \<lparr>p_x = 1, p_y = 0\<rparr>,
      \<lparr>p_x = 2, p_y = 1\<rparr>]"
    "sum_x ?st = 3" "sum_y ?st = 1" "sum_xy ?st = 2" "sum_x_squared ?st = 5"
    "residual ?st = None"
    by (simp_all add: build_unfold sloped_points_def)
  have d: "coef_denom ?st = 6" "coef_a ?st = - 1 / 6" "coef_b ?st = 1 / 2"
    by (simp_all add: coef_denom_def coef_a_def coef_b_def s)
  have sp: "x_spread ?st * y_spread ?st \<noteq> 0"
    by (simp add: x_spread_def y_spread_def mean_x_of_def mean_y_of_def s CalculatedPoint_def
        power2_eq_square)
  show ?thesis
  proof (cases "fitted_finite rnd ?st")
    case True
    then have "residual (snd (calculate rnd ?st)) = Some (residual_of rnd ?st)"
      using sp d by (simp add: calculate_ok s)
    also have "residual_of rnd ?st = toNumber rnd
      (sqrt ((0 - rnd (- 1 / 6))\<^sup>2 + (0 - rnd (1 / 3))\<^sup>2 + (1 - rnd (5 / 6))\<^sup>2))"
      by (simp add: residual_of_def residual_squares_def d s CalculatedPoint_def add.assoc)
    finally show ?thesis
      using True by simp
  next
    case False
    then have "residual (snd (calculate rnd ?st)) = None"
      using d by (simp add: calculate_overflow s)
    then show ?thesis
      using False by simp
  qed
qed

text \<open>
  With \<open>rnd = id\<close> the three fitted values are finite, and the residual is the number for
  \<open>sqrt (1 / 6)\<close>.
\<close>

theorem residual_pass_converts_fitted_values_witness:
  "fitted_finite id (constructor (Some sloped_points)) \<and>
   residual (snd (calculate id (constructor (Some sloped_points)))) =
     Some (toNumber id (sqrt (1 / 6)))"
proof -
  let ?st = "constructor (Some sloped_points)"
  have s: "points ?st = map CalculatedPoint [\<lparr>p_x = 0, p_y = 0\<rparr>, \<lparr>p_x = 1, p_y = 0\<rparr>,
      \<lparr>p_x = 2, p_y = 1\<rparr>]"
    "sum_x ?st = 3" "sum_y ?st = 1" "sum_xy ?st = 2" "sum_x_squared ?st = 5"
    by (simp_all add: build_unfold sloped_points_def)
  have f: "fitted_finite id ?st"
    by (simp add: fitted_finite_def fitted_def native_unfold coef_denom_def coef_a_def
        coef_b_def s CalculatedPoint_def)
  have e: "(0 - id (- 1 / 6))\<^sup>2 + (0 - id (1 / 3))\<^sup>2 + (1 - id (5 / 6))\<^sup>2 = (1 / 6 :: real)"
    by (simp add: power2_eq_square)
  have "residual (snd (calculate id ?st)) =
    Some (toNumber id
      (sqrt ((0 - id (- 1 / 6))\<^sup>2 + (0 - id (1 / 3))\<^sup>2 + (1 - id (5 / 6))\<^sup>2)))"
    using f residual_pass_converts_fitted_values [of id] by (simp only: if_True)
  then show ?thesis
    using f by (simp only: e simp_thms)
qed


section \<open>Division by zero\<close>














section \<open>The band returned by getValues\<close>












subsection \<open>Signs of native products and sums\<close>















text \<open>
  Beside C9: an infinite \<open>k\<close>. On the points \<open>(0, 0)\<close>, \<open>(1, 1)\<close>, \<open>(2, 2)\<close> (a perfect fit,
  residual \<open>0\<close>) the call \<^verbatim>\<open>getValues(1, Infinity)\<close> completes with \<^verbatim>\<open>[NaN, 1, NaN]\<close>: both
  offsets are \<^verbatim>\<open>0 * Infinity\<close>. Neither bound is a number, and the zero residual makes each
  of the two \<^verbatim>\<open>getStandardDeviationValue\<close> calls calculate again.
\<close>

lemma line_points_state:
  "run id (Some line_points) [] =
     \<lparr>points = [CalculatedPoint \<lparr>p_x = 0, p_y = 0\<rparr>, CalculatedPoint \<lparr>p_x = 1, p_y = 1\<rparr>,
          CalculatedPoint \<lparr>p_x = 2, p_y = 2\<rparr>],
       lr_a = None, lr_b = None, residual = None, pearsons_r = None,
       sum_x = 3, sum_y = 3, sum_xy = 5, sum_x_squared = 5, sum_y_squared = 5,
       calculate_calls = 0\<rparr>"
  by (simp add: run_nil constructor_def push_def Let_def fresh_def clearCalculated_def
      line_points_def)
    (simp add: CalculatedPoint_def)

lemma line_points_calculate:
  "calculate id
     \<lparr>points = [CalculatedPoint \<lparr>p_x = 0, p_y = 0\<rparr>, CalculatedPoint \<lparr>p_x = 1, p_y = 1\<rparr>,
          CalculatedPoint \<lparr>p_x = 2, p_y = 2\<rparr>],
       lr_a = av, lr_b = bv, residual = r, pearsons_r = p,
       sum_x = 3, sum_y = 3, sum_xy = 5, sum_x_squared = 5, sum_y_squared = 5,
       calculate_calls = c\<rparr> =
     (Inr (),
      \<lparr>points = [CalculatedPoint \<lparr>p_x = 0, p_y = 0\<rparr>, CalculatedPoint \<lparr>p_x = 1, p_y = 1\<rparr>,
          CalculatedPoint \<lparr>p_x = 2, p_y = 2\<rparr>],
       lr_a = Some 0, lr_b = Some 1, residual = Some (Num 0), pearsons_r = Some (Num 1),
       sum_x = 3, sum_y = 3, sum_xy = 5, sum_x_squared = 5, sum_y_squared = 5,
       calculate_calls = c + 1\<rparr>)"
  by (simp add: calculate_def Let_def big_div_def big_sqrt_def CalculatedPoint_def
      fitted_def native_unfold)

lemma line_points_infinite_band:
  "getValues id (run id (Some line_points) []) 1 PInf =
     (Inr [NaN, Num 1, NaN],
      \<lparr>points = [CalculatedPoint \<lparr>p_x = 0, p_y = 0\<rparr>, CalculatedPoint \<lparr>p_x = 1, p_y = 1\<rparr>,
          CalculatedPoint \<lparr>p_x = 2, p_y = 2\<rparr>],
       lr_a = Some 0, lr_b = Some 1, residual = Some (Num 0), pearsons_r = Some (Num 1),
       sum_x = 3, sum_y = 3, sum_xy = 5, sum_x_squared = 5, sum_y_squared = 5,
       calculate_calls = 3\<rparr>)"
  unfolding line_points_state
  by (simp add: getValues_def getStandardDeviationValue_def getStandardDeviation_def
      getValue_def getResidual_def isCalculated_def truthy_big_def fitted_def native_unfold
      scale_infinity_def line_points_calculate)

end
